theory Spec2Isabelle
  imports Main
begin

section \<open>Go library primitives used by the server\<close>

text \<open>
  Go strings are byte sequences: \<open>string\<close>. Go's \<open>int\<close> and \<open>int64\<close> are modelled as
  \<open>int\<close> with the 64-bit wrap-around written out where the source does arithmetic.
\<close>

subsection \<open>unicode/utf8\<close>

text \<open>
  The \<open>strings\<close>, \<open>unicode\<close> and \<open>regexp\<close> packages read a string one UTF-8 character at a
  time, as \<open>utf8.DecodeRuneInString\<close> does: a well-formed sequence of one to four bytes is
  one character, and a byte that starts no well-formed sequence is one character by
  itself (\<open>utf8.RuneError\<close>, of width 1).
\<close>

definition inRange :: "char \<Rightarrow> nat \<Rightarrow> nat \<Rightarrow> bool" where
  "inRange c lo hi = (lo \<le> of_char c \<and> (of_char c :: nat) \<le> hi)"

text \<open>The width of the first character of a non-empty string.\<close>

fun utf8_width :: "string \<Rightarrow> nat" where
  "utf8_width [] = 0"
| "utf8_width (c # s) =
     (if inRange c 0x00 0x7F then 1
      else if inRange c 0xC2 0xDF then
        (case s of
           c1 # _ \<Rightarrow> if inRange c1 0x80 0xBF then 2 else 1
         | _ \<Rightarrow> 1)
      else if inRange c 0xE0 0xEF then
        (case s of
           c1 # c2 # _ \<Rightarrow>
             if inRange c1 (if c = CHR 0xE0 then 0xA0 else 0x80)
                           (if c = CHR 0xED then 0x9F else 0xBF)
                \<and> inRange c2 0x80 0xBF
             then 3 else 1
         | _ \<Rightarrow> 1)
      else if inRange c 0xF0 0xF4 then
        (case s of
           c1 # c2 # c3 # _ \<Rightarrow>
             if inRange c1 (if c = CHR 0xF0 then 0x90 else 0x80)
                           (if c = CHR 0xF4 then 0x8F else 0xBF)
                \<and> inRange c2 0x80 0xBF \<and> inRange c3 0x80 0xBF
             then 4 else 1
         | _ \<Rightarrow> 1)
      else 1)"

declare utf8_width.simps [simp del]

text \<open>The characters of a string, each as the bytes that encode it.\<close>

function runes :: "string \<Rightarrow> string list" where
  "runes [] = []"
| "runes (c # s) =
     (c # take (utf8_width (c # s) - 1) s) # runes (drop (utf8_width (c # s) - 1) s)"
  by pat_completeness auto
termination
  by (relation "measure length") auto

subsection \<open>strings\<close>

text \<open>\<open>unicode.IsSpace\<close>, on an encoded character: tab, newline, vertical tab, form feed,
  carriage return, space, U+0085, U+00A0, U+1680, U+2000 to U+200A, U+2028, U+2029,
  U+202F, U+205F and U+3000.\<close>

definition isSpace :: "string \<Rightarrow> bool" where
  "isSpace r =
     (r \<in> set [[CHR 0x09], [CHR 0x0A], [CHR 0x0B], [CHR 0x0C], [CHR 0x0D], [CHR 0x20],
               [CHR 0xC2, CHR 0x85], [CHR 0xC2, CHR 0xA0], [CHR 0xE1, CHR 0x9A, CHR 0x80],
               [CHR 0xE2, CHR 0x80, CHR 0x80], [CHR 0xE2, CHR 0x80, CHR 0x81],
               [CHR 0xE2, CHR 0x80, CHR 0x82], [CHR 0xE2, CHR 0x80, CHR 0x83],
               [CHR 0xE2, CHR 0x80, CHR 0x84], [CHR 0xE2, CHR 0x80, CHR 0x85],
               [CHR 0xE2, CHR 0x80, CHR 0x86], [CHR 0xE2, CHR 0x80, CHR 0x87],
               [CHR 0xE2, CHR 0x80, CHR 0x88], [CHR 0xE2, CHR 0x80, CHR 0x89],
               [CHR 0xE2, CHR 0x80, CHR 0x8A], [CHR 0xE2, CHR 0x80, CHR 0xA8],
               [CHR 0xE2, CHR 0x80, CHR 0xA9], [CHR 0xE2, CHR 0x80, CHR 0xAF],
               [CHR 0xE2, CHR 0x81, CHR 0x9F], [CHR 0xE3, CHR 0x80, CHR 0x80]])"

definition TrimSpace :: "string \<Rightarrow> string" where
  "TrimSpace s = concat (rev (dropWhile isSpace (rev (dropWhile isSpace (runes s)))))"

text \<open>\<open>strings.Fields\<close>: the maximal runs of characters that are no white space; \<open>w\<close> is
  the field being read.\<close>

fun fields_from :: "string \<Rightarrow> string list \<Rightarrow> string list" where
  "fields_from w [] = (if w = [] then [] else [w])"
| "fields_from w (r # rs) =
     (if isSpace r then (if w = [] then fields_from [] rs else w # fields_from [] rs)
      else fields_from (w @ r) rs)"

definition Fields :: "string \<Rightarrow> string list" where
  "Fields s = fields_from [] (runes s)"

definition HasPrefix :: "string \<Rightarrow> string \<Rightarrow> bool" where
  "HasPrefix s prefix = (length s \<ge> length prefix \<and> take (length prefix) s = prefix)"

text \<open>\<open>strings.Split(s, sep)\<close> for a one-byte separator (the source splits on \<open>"-"\<close> and
  on \<open>"."\<close>): the pieces between the separators, one piece more than there are separators.\<close>

fun Split :: "string \<Rightarrow> char \<Rightarrow> string list" where
  "Split [] sep = [[]]"
| "Split (x # xs) sep =
     (if x = sep then [] # Split xs sep
      else (case Split xs sep of [] \<Rightarrow> [[x]] | y # ys \<Rightarrow> (x # y) # ys))"

fun Join :: "string list \<Rightarrow> string \<Rightarrow> string" where
  "Join [] sep = []"
| "Join [x] sep = x"
| "Join (x # y # ys) sep = x @ sep @ Join (y # ys) sep"

definition HasSuffix :: "string \<Rightarrow> string \<Rightarrow> bool" where
  "HasSuffix s suffix =
     (length s \<ge> length suffix \<and> drop (length s - length suffix) s = suffix)"

subsection \<open>strconv\<close>

definition isDigit :: "char \<Rightarrow> bool" where
  "isDigit c = (c \<in> set ''0123456789'')"

definition digit_val :: "char \<Rightarrow> int" where
  "digit_val c = int (of_char c) - 48"

text \<open>The value of a digit string, most significant digit first.\<close>

fun dec_from :: "int \<Rightarrow> string \<Rightarrow> int" where
  "dec_from n [] = n"
| "dec_from n (c # s) = dec_from (n * 10 + digit_val c) s"

definition dec_value :: "string \<Rightarrow> int" where
  "dec_value s = dec_from 0 s"

definition maxInt64 :: int where
  "maxInt64 = 9223372036854775807"

text \<open>\<open>strconv.Atoi\<close> on a 64-bit platform: an optional sign, then one or more decimal
  digits, and the value must fit \<open>int\<close>; \<open>None\<close> is a non-nil error.\<close>

definition Atoi :: "string \<Rightarrow> int option" where
  "Atoi s =
     (let neg = (s \<noteq> [] \<and> hd s = CHR ''-'');
          ds = (if s \<noteq> [] \<and> (hd s = CHR ''-'' \<or> hd s = CHR ''+'') then tl s else s)
      in if ds = [] \<or> \<not> list_all isDigit ds then None
         else if neg then (if dec_value ds \<le> maxInt64 + 1 then Some (- dec_value ds) else None)
         else (if dec_value ds \<le> maxInt64 then Some (dec_value ds) else None))"

text \<open>Two's-complement wrap-around of a 64-bit signed result.\<close>

definition wrap64 :: "int \<Rightarrow> int" where
  "wrap64 x = (x + 9223372036854775808) mod 18446744073709551616 - 9223372036854775808"

definition digit_char :: "nat \<Rightarrow> char" where
  "digit_char d = ''0123456789'' ! d"

function nat_dec :: "nat \<Rightarrow> string" where
  "nat_dec n = (if n < 10 then [digit_char n] else nat_dec (n div 10) @ [digit_char (n mod 10)])"
  by pat_completeness auto
termination
  by (relation "measure (\<lambda>n. n)") auto

declare nat_dec.simps [simp del]

text \<open>\<open>strconv.Itoa\<close>, and \<open>strconv.FormatInt(_, 10)\<close>.\<close>

definition Itoa :: "int \<Rightarrow> string" where
  "Itoa i = (if i < 0 then CHR ''-'' # nat_dec (nat (- i)) else nat_dec (nat i))"

subsection \<open>regexp\<close>

text \<open>
  The two patterns of the source are concatenations of single-character classes, each
  taken once or one-or-more times, between \<open>^\<close> and \<open>$\<close>. In Go's syntax an unescaped
  \<open>.\<close> is the class of every character but newline. A class is tried on one character
  of the string, given as its bytes.
\<close>

datatype cclass = Digit | AnyChar | Lit char

datatype item = Once cclass | Plus cclass

fun accepts :: "cclass \<Rightarrow> string \<Rightarrow> bool" where
  "accepts Digit r = (case r of [c] \<Rightarrow> isDigit c | _ \<Rightarrow> False)"
| "accepts AnyChar r = (r \<noteq> [CHR 0x0A])"
| "accepts (Lit l) r = (r = [l])"

text \<open>An anchored pattern against the characters of a string: all of them are consumed.\<close>

fun matchRunes :: "item list \<Rightarrow> string list \<Rightarrow> bool" where
  "matchRunes [] rs = (rs = [])"
| "matchRunes (Once k # p) [] = False"
| "matchRunes (Once k # p) (r # rs) = (accepts k r \<and> matchRunes p rs)"
| "matchRunes (Plus k # p) [] = False"
| "matchRunes (Plus k # p) (r # rs) =
     (accepts k r \<and> (matchRunes p rs \<or> matchRunes (Plus k # p) rs))"

definition MatchString :: "item list \<Rightarrow> string \<Rightarrow> bool" where
  "MatchString p s = matchRunes p (runes s)"

text \<open>\<open>"^[0-9]+.[0-9]+.[0-9]+$"\<close>\<close>

definition finalVersionRxp :: "item list" where
  "finalVersionRxp = [Plus Digit, Once AnyChar, Plus Digit, Once AnyChar, Plus Digit]"

text \<open>\<open>"^[0-9]+.[0-9]+.[0-9]+-rc[0-9]+$"\<close>\<close>

definition rcRxp :: "item list" where
  "rcRxp = [Plus Digit, Once AnyChar, Plus Digit, Once AnyChar, Plus Digit,
            Once (Lit CHR ''-''), Once (Lit CHR ''r''), Once (Lit CHR ''c''), Plus Digit]"

section \<open>Errors\<close>

text \<open>
  \<open>AppError\<close> is the struct of server.go; its \<open>Parent\<close> field has the interface type
  \<open>error\<close>. A Go interface value is nil (\<open>NilError\<close>), or holds a value of a concrete
  type: an error of a library (\<open>ExternalError\<close>, identified by its message) or a
  pointer \<open>*AppError\<close>, which may itself be the nil pointer (\<open>AppErrorPtr None\<close>). An
  interface that holds a nil pointer is not the nil interface.
\<close>

datatype AppError = AppError (ErrorDescription: string) (Parent: error)
  and error = NilError | ExternalError string | AppErrorPtr "AppError option"

definition NewError :: "string \<Rightarrow> error \<Rightarrow> AppError" where
  "NewError description parent = AppError description parent"

text \<open>The method \<open>(*AppError).Error\<close>, on a pointer that may be nil. The test
  \<open>err.Parent != nil\<close> holds for every interface value but \<open>NilError\<close>.\<close>

fun Error :: "AppError option \<Rightarrow> string" where
  "Error None = ''No Error (nil)''"
| "Error (Some (AppError d p)) =
     (case p of
        NilError \<Rightarrow> d
      | ExternalError m \<Rightarrow> d @ '' |:| '' @ m
      | AppErrorPtr q \<Rightarrow> d @ '' |:| '' @ Error q)"

text \<open>An \<open>error\<close> returned by a library call: nil, or the library's error.\<close>

definition lib_error :: "string option \<Rightarrow> error" where
  "lib_error e = (case e of None \<Rightarrow> NilError | Some m \<Rightarrow> ExternalError m)"

text \<open>A call either panics or returns.\<close>

datatype 'a outcome = Panic | Return 'a

section \<open>Configuration and the remote systems\<close>

text \<open>The fields of the global \<open>Cfg\<close> that the modelled functions read.\<close>

record Config =
  PreChecksJob :: string
  ReleaseJob :: string
  PreReleaseJob :: string
  CIServerJobs :: "string list"
  AllowedTokens :: "string list"
  AllowedUsers :: "string list"
  ReleaseUsers :: "string list"

definition STATUS_SUCCESS :: string where
  "STATUS_SUCCESS = ''SUCCESS''"

definition IN_CHANNEL :: string where
  "IN_CHANNEL = ''in_channel''"

definition EPHEMERAL :: string where
  "EPHEMERAL = ''ephemeral''"

text \<open>
  An XML document of the etree library, as far as the source looks at it: its root
  element, if it has one (\<open>Root\<close> returns nil otherwise), and under the root the text of
  the first element at a path (\<open>FindElement\<close> returns that element, or nil).
\<close>

type_synonym element = "string \<rightharpoonup> string"

type_synonym document = "element option"

text \<open>A Go \<open>map[string]string\<close> argument: nil, or the entries of a map literal.\<close>

type_synonym parameters = "(string \<times> string) list option"

text \<open>
  Every call that leaves the process, and every response written, is an event; a run is
  the list of its events in order.
\<close>

datatype call =
    is_CreateJenkins: CreateJenkins
  | is_GetJob: GetJob string
  | is_InvokeSimple: InvokeSimple string parameters
  | is_Poll: Poll string
  | is_IsRunning: IsRunning string
  | is_GetResult: GetResult string
  | is_GetConfig: GetConfig string
  | is_UpdateConfig: UpdateConfig string string
  | is_Sleep: Sleep int
  | is_HttpGet: HttpGet string
  | is_WriteStandard: WriteStandard string string
  | is_WriteEnriched: WriteEnriched string string string string

type_synonym trace = "call list"

text \<open>
  The remote systems are parameters: what the Jenkins client (gojenkins), the HTTP client
  and the XML library answer. The \<open>k\<close>-th call of a kind in a run gets the \<open>k\<close>-th answer
  of that kind, so any sequence of answers can be described. An error of a library is
  its message; for \<open>Poll\<close> the answer is the pair \<open>(status, err)\<close> the source reads.
\<close>

record env =
  createJenkins_r :: "nat \<Rightarrow> string option"
  getJob_r :: "nat \<Rightarrow> string + int"
  invokeSimple_r :: "nat \<Rightarrow> string option"
  poll_r :: "nat \<Rightarrow> int \<times> string option"
  isRunning_r :: "nat \<Rightarrow> bool"
  getResult_r :: "nat \<Rightarrow> string"
  getConfig_r :: "nat \<Rightarrow> string + string"
  updateConfig_r :: "nat \<Rightarrow> string option"
  httpGet_r :: "nat \<Rightarrow> string + int"
  readFromString :: "string \<Rightarrow> string + document"
  writeToString :: "document \<Rightarrow> string + string"

definition ncalls :: "(call \<Rightarrow> bool) \<Rightarrow> trace \<Rightarrow> nat" where
  "ncalls P tr = length (filter P tr)"

text \<open>\<open>gojenkins.CreateJenkins(...).Init()\<close>\<close>

definition jenkins_Init :: "env \<Rightarrow> trace \<Rightarrow> string option \<times> trace" where
  "jenkins_Init e tr = (createJenkins_r e (ncalls is_CreateJenkins tr), tr @ [CreateJenkins])"

text \<open>A \<open>*gojenkins.Job\<close>: its name and the \<open>Raw.NextBuildNumber\<close> read when it was fetched.\<close>

record Job =
  JobName :: string
  NextBuildNumber :: int

definition jenkins_GetJob :: "env \<Rightarrow> string \<Rightarrow> trace \<Rightarrow> (string + Job) \<times> trace" where
  "jenkins_GetJob e name tr =
     (case getJob_r e (ncalls is_GetJob tr) of
        Inl err \<Rightarrow> (Inl err, tr @ [GetJob name])
      | Inr n \<Rightarrow> (Inr \<lparr>JobName = name, NextBuildNumber = n\<rparr>, tr @ [GetJob name]))"

definition job_InvokeSimple :: "env \<Rightarrow> Job \<Rightarrow> parameters \<Rightarrow> trace \<Rightarrow> string option \<times> trace" where
  "job_InvokeSimple e job ps tr =
     (invokeSimple_r e (ncalls is_InvokeSimple tr), tr @ [InvokeSimple (JobName job) ps])"

definition job_GetConfig :: "env \<Rightarrow> Job \<Rightarrow> trace \<Rightarrow> (string + string) \<times> trace" where
  "job_GetConfig e job tr = (getConfig_r e (ncalls is_GetConfig tr), tr @ [GetConfig (JobName job)])"

definition job_UpdateConfig :: "env \<Rightarrow> Job \<Rightarrow> string \<Rightarrow> trace \<Rightarrow> string option \<times> trace" where
  "job_UpdateConfig e job config tr =
     (updateConfig_r e (ncalls is_UpdateConfig tr), tr @ [UpdateConfig (JobName job) config])"

text \<open>The methods of a \<open>gojenkins.Build\<close>, which the source identifies by its \<open>Base\<close> path.\<close>

definition build_Poll :: "env \<Rightarrow> string \<Rightarrow> trace \<Rightarrow> (int \<times> string option) \<times> trace" where
  "build_Poll e base tr = (poll_r e (ncalls is_Poll tr), tr @ [Poll base])"

definition build_IsRunning :: "env \<Rightarrow> string \<Rightarrow> trace \<Rightarrow> bool \<times> trace" where
  "build_IsRunning e base tr = (isRunning_r e (ncalls is_IsRunning tr), tr @ [IsRunning base])"

definition build_GetResult :: "env \<Rightarrow> string \<Rightarrow> trace \<Rightarrow> string \<times> trace" where
  "build_GetResult e base tr = (getResult_r e (ncalls is_GetResult tr), tr @ [GetResult base])"

text \<open>\<open>time.Sleep\<close>, in seconds.\<close>

definition time_Sleep :: "int \<Rightarrow> trace \<Rightarrow> trace" where
  "time_Sleep seconds tr = tr @ [Sleep seconds]"

text \<open>\<open>http.Get\<close>: an error, or the response's \<open>StatusCode\<close>.\<close>

definition http_Get :: "env \<Rightarrow> string \<Rightarrow> trace \<Rightarrow> (string + int) \<times> trace" where
  "http_Get e url tr = (httpGet_r e (ncalls is_HttpGet tr), tr @ [HttpGet url])"

text \<open>The response writers of server.go: the text or the attachment they send.\<close>

definition WriteErrorResponse :: "AppError \<Rightarrow> trace \<Rightarrow> trace" where
  "WriteErrorResponse err tr = tr @ [WriteStandard (Error (Some err)) EPHEMERAL]"

definition WriteResponse :: "string \<Rightarrow> string \<Rightarrow> trace \<Rightarrow> trace" where
  "WriteResponse resp style tr = tr @ [WriteStandard resp style]"

definition WriteEnrichedResponse :: "string \<Rightarrow> string \<Rightarrow> string \<Rightarrow> string \<Rightarrow> trace \<Rightarrow> trace" where
  "WriteEnrichedResponse title resp color style tr = tr @ [WriteEnriched title resp color style]"

section \<open>The Jenkins operations\<close>

definition getJenkins :: "env \<Rightarrow> trace \<Rightarrow> AppError option \<times> trace" where
  "getJenkins e tr =
     (case jenkins_Init e tr of
        (Some err, tr1) \<Rightarrow> (Some (NewError ''Unable to connect to jenkins!'' (ExternalError err)), tr1)
      | (None, tr1) \<Rightarrow> (None, tr1))"

definition getJob :: "env \<Rightarrow> string \<Rightarrow> trace \<Rightarrow> (AppError + Job) \<times> trace" where
  "getJob e name tr =
     (case getJenkins e tr of
        (Some err, tr1) \<Rightarrow> (Inl err, tr1)
      | (None, tr1) \<Rightarrow>
          (case jenkins_GetJob e name tr1 of
             (Inl err, tr2) \<Rightarrow> (Inl (NewError ''Unable to get job'' (ExternalError err)), tr2)
           | (Inr job, tr2) \<Rightarrow> (Inr job, tr2)))"

definition GetJobConfig :: "env \<Rightarrow> string \<Rightarrow> trace \<Rightarrow> (string \<times> AppError option) \<times> trace" where
  "GetJobConfig e name tr =
     (case getJob e name tr of
        (Inl err, tr1) \<Rightarrow> (([], Some err), tr1)
      | (Inr job, tr1) \<Rightarrow>
          (case job_GetConfig e job tr1 of
             (Inl err, tr2) \<Rightarrow> (([], Some (NewError ''Unable to get job config'' (ExternalError err))), tr2)
           | (Inr config, tr2) \<Rightarrow> ((config, None), tr2)))"

text \<open>In the \<open>else\<close> branch of \<open>SaveJobConfig\<close> and \<open>RunJobParameters\<close>, and after the first
  check of \<open>RunJobWaitForResult\<close>, the variable \<open>err\<close> is the nil \<open>*AppError\<close> that \<open>getJob\<close>
  returned; the source passes it, not \<open>err2\<close>, to \<open>NewError\<close>.\<close>

definition SaveJobConfig :: "env \<Rightarrow> string \<Rightarrow> string \<Rightarrow> trace \<Rightarrow> AppError option \<times> trace" where
  "SaveJobConfig e name config tr =
     (case getJob e name tr of
        (Inl err, tr1) \<Rightarrow> (Some err, tr1)
      | (Inr job, tr1) \<Rightarrow>
          (let err = (None :: AppError option);
               (err2, tr2) = job_UpdateConfig e job config tr1
           in if err2 \<noteq> None
              then (Some (NewError ''Unable to update job config'' (AppErrorPtr err)), tr2)
              else (None, tr2)))"

definition RunJobParameters :: "env \<Rightarrow> string \<Rightarrow> parameters \<Rightarrow> trace \<Rightarrow> AppError option \<times> trace" where
  "RunJobParameters e name ps tr =
     (case getJob e name tr of
        (Inl err, tr1) \<Rightarrow> (Some err, tr1)
      | (Inr job, tr1) \<Rightarrow>
          (let err = (None :: AppError option);
               (err2, tr2) = job_InvokeSimple e job ps tr1
           in if err2 \<noteq> None
              then (Some (NewError ''Unable to envoke job.'' (AppErrorPtr err)), tr2)
              else (None, tr2)))"

definition RunJob :: "env \<Rightarrow> string \<Rightarrow> trace \<Rightarrow> AppError option \<times> trace" where
  "RunJob e name tr = RunJobParameters e name None tr"

subsection \<open>RunJobWaitForResult\<close>

text \<open>The loop of lines 188 to 194: entered with the answer of the last \<open>Poll\<close>; it
  returns the error of the early return, if any.\<close>

function reachLoop ::
  "env \<Rightarrow> string \<Rightarrow> int \<Rightarrow> int \<Rightarrow> int \<times> string option \<Rightarrow> trace \<Rightarrow> AppError option \<times> trace" where
  "reachLoop e base newBuildNumber tries r tr =
     (if snd r \<noteq> None \<or> fst r \<noteq> 200 then
        (let (r', tr1) = build_Poll e base tr in
         if tries \<ge> 5
         then (Some (NewError (''Unable to get build for pre-checks job: '' @ Itoa newBuildNumber)
                        (lib_error (snd r'))), tr1)
         else reachLoop e base newBuildNumber (tries + 1) r' (time_Sleep tries tr1))
      else (None, tr))"
  by pat_completeness auto
termination
  by (relation "measure (\<lambda>(e, base, n, tries, r, tr). nat (5 - tries))") auto

declare reachLoop.simps [simp del]

text \<open>The loop of lines 199 to 202: it may run forever, and then has no result.\<close>

partial_function (option) waitLoop :: "env \<Rightarrow> string \<Rightarrow> trace \<Rightarrow> trace option" where
  "waitLoop e base tr =
     (let (running, tr1) = build_IsRunning e base tr in
      if running then waitLoop e base (snd (build_Poll e base (time_Sleep 1 tr1)))
      else Some tr1)"

declare waitLoop.simps [code]

text \<open>The \<open>Base\<close> path of the build that the source polls.\<close>

definition buildBase :: "string \<Rightarrow> int \<Rightarrow> string" where
  "buildBase name newBuildNumber = ''/job/'' @ name @ ''/'' @ Itoa newBuildNumber"

definition RunJobWaitForResult ::
  "env \<Rightarrow> string \<Rightarrow> parameters \<Rightarrow> trace \<Rightarrow> ((string \<times> AppError option) \<times> trace) option" where
  "RunJobWaitForResult e name ps tr =
     (case getJob e name tr of
        (Inl err, tr1) \<Rightarrow> Some (([], Some err), tr1)
      | (Inr job, tr1) \<Rightarrow>
          (let err = (None :: AppError option);
               newBuildNumber = NextBuildNumber job;
               (err2, tr2) = job_InvokeSimple e job ps tr1
           in if err2 \<noteq> None
              then Some (([], Some (NewError ''Unable to envoke job.'' (AppErrorPtr err))), tr2)
              else
                (let base = buildBase name newBuildNumber;
                     (r, tr3) = build_Poll e base tr2
                 in case reachLoop e base newBuildNumber 1 r tr3 of
                      (Some err4, tr4) \<Rightarrow> Some (([], Some err4), tr4)
                    | (None, tr4) \<Rightarrow>
                        (case waitLoop e base (snd (build_Poll e base (time_Sleep 5 tr4))) of
                           None \<Rightarrow> None
                         | Some tr5 \<Rightarrow>
                             (let (result, tr6) = build_GetResult e base tr5
                              in Some ((result, None), tr6))))))"

subsection \<open>Job configurations\<close>

definition defaultValuePath :: string where
  "defaultValuePath = ''./properties/hudson.model.ParametersDefinitionProperty/parameterDefinitions/hudson.model.StringParameterDefinition/defaultValue''"

definition upstreamProjectsPath :: string where
  "upstreamProjectsPath = ''./triggers/jenkins.triggers.ReverseBuildTrigger/upstreamProjects''"

text \<open>The loop of \<open>SetCIServerBranch\<close> over \<open>Cfg.CIServerJobs\<close>; a \<open>return\<close> in its body
  ends it. For a document without a root element \<open>jConfig.Root()\<close> is nil, and the call of
  \<open>FindElement\<close> on it panics.\<close>

fun SetCIServerBranch_jobs ::
  "env \<Rightarrow> string \<Rightarrow> string list \<Rightarrow> trace \<Rightarrow> AppError option outcome \<times> trace" where
  "SetCIServerBranch_jobs e branch [] tr = (Return None, tr)"
| "SetCIServerBranch_jobs e branch (serverjob # jobs) tr =
     (case GetJobConfig e serverjob tr of
        ((config, Some err), tr1) \<Rightarrow> (Return (Some err), tr1)
      | ((config, None), tr1) \<Rightarrow>
          (case readFromString e config of
             Inl err \<Rightarrow>
               (Return (Some (NewError (''Unable to read job configuration for '' @ serverjob)
                                (ExternalError err))), tr1)
           | Inr jConfig \<Rightarrow>
               (case jConfig of
                  None \<Rightarrow> (Panic, tr1)
                | Some root \<Rightarrow>
                    (if root defaultValuePath = None
                     then (Return (Some (NewError
                             (''Unable to correct default branch element for '' @ serverjob)
                             NilError)), tr1)
                     else
                       (let root1 = root(defaultValuePath \<mapsto> branch) in
                        if root1 upstreamProjectsPath = None
                        then (Return (Some (NewError
                                (''Unable to correct build trigger element for '' @ serverjob)
                                NilError)), tr1)
                        else
                          (let root2 =
                                 (if branch = ''master''
                                  then root1(upstreamProjectsPath \<mapsto> ''mattermost-enterprise'')
                                  else root1(upstreamProjectsPath \<mapsto>
                                               ''mattermost-platform/'' @ branch))
                           in case writeToString e (Some root2) of
                                Inl err \<Rightarrow>
                                  (Return (Some (NewError
                                     (''Unable to write out final job config for '' @ serverjob)
                                     (ExternalError err))), tr1)
                              | Inr jConfigStringOut \<Rightarrow>
                                  (case SaveJobConfig e serverjob jConfigStringOut tr1 of
                                     (Some err, tr2) \<Rightarrow>
                                       (Return (Some (NewError
                                          (''Unable to save job for '' @ serverjob)
                                          (AppErrorPtr (Some err)))), tr2)
                                   | (None, tr2) \<Rightarrow>
                                       SetCIServerBranch_jobs e branch jobs tr2)))))))"

definition SetCIServerBranch ::
  "env \<Rightarrow> Config \<Rightarrow> string \<Rightarrow> trace \<Rightarrow> AppError option outcome \<times> trace" where
  "SetCIServerBranch e cfg branch tr = SetCIServerBranch_jobs e branch (CIServerJobs cfg) tr"

definition SetPreReleaseTarget ::
  "env \<Rightarrow> Config \<Rightarrow> string \<Rightarrow> trace \<Rightarrow> AppError option outcome \<times> trace" where
  "SetPreReleaseTarget e cfg target tr =
     (case GetJobConfig e (PreReleaseJob cfg) tr of
        ((config, Some err), tr1) \<Rightarrow> (Return (Some err), tr1)
      | ((config, None), tr1) \<Rightarrow>
          (case readFromString e config of
             Inl err \<Rightarrow>
               (Return (Some (NewError ''Unable to read job configuration for pre-release''
                                (ExternalError err))), tr1)
           | Inr jConfig \<Rightarrow>
               (case jConfig of
                  None \<Rightarrow> (Panic, tr1)
                | Some root \<Rightarrow>
                    (if root defaultValuePath = None
                     then (Return (Some (NewError ''Unable to find element for pre-release target''
                                           NilError)), tr1)
                     else
                       (case writeToString e (Some (root(defaultValuePath \<mapsto> target))) of
                          Inl err \<Rightarrow>
                            (Return (Some (NewError
                               ''Unable to write out final job config for pre-release job''
                               (ExternalError err))), tr1)
                        | Inr jConfigStringOut \<Rightarrow>
                            (case SaveJobConfig e (PreReleaseJob cfg) jConfigStringOut tr1 of
                               (Some err, tr2) \<Rightarrow>
                                 (Return (Some (NewError ''Unable to save job for pre-release''
                                                  (AppErrorPtr (Some err)))), tr2)
                             | (None, tr2) \<Rightarrow> (Return None, tr2)))))))"

subsection \<open>Cutting a release\<close>

definition RunReleasePrechecks :: "env \<Rightarrow> Config \<Rightarrow> trace \<Rightarrow> (AppError option \<times> trace) option" where
  "RunReleasePrechecks e cfg tr =
     (case RunJobWaitForResult e (PreChecksJob cfg) None tr of
        None \<Rightarrow> None
      | Some ((result, err), tr1) \<Rightarrow>
          (if err \<noteq> None \<or> result \<noteq> STATUS_SUCCESS
           then Some (Some (NewError
                  (''Pre-checks failed! (Did you update the database upgrade code?) Result: '' @ result)
                  (AppErrorPtr err)), tr1)
           else Some (None, tr1)))"

text \<open>
  The body of \<open>if !backportRelease\<close> in the goroutine of \<open>CutRelease\<close> (lines 58 to 63),
  the last stage of a cut: its result is the run it makes. The results of the four calls
  are dropped, as in the source; a panic in one of them ends the process, and the run
  with it.
\<close>

definition lastStage :: "env \<Rightarrow> Config \<Rightarrow> string \<Rightarrow> string \<Rightarrow> trace \<Rightarrow> trace" where
  "lastStage e cfg releaseBranch fullRelease tr =
     (case SetCIServerBranch e cfg releaseBranch tr of
        (Panic, tr1) \<Rightarrow> tr1
      | (Return r1, tr1) \<Rightarrow>
          (let tr2 = snd (RunJobParameters e ''build-pushes/job/release-gitlab.mattermost.com''
                            (Some [(''MM_VERSION'', fullRelease)]) tr1)
           in case SetPreReleaseTarget e cfg fullRelease tr2 of
                (Panic, tr3) \<Rightarrow> tr3
              | (Return r3, tr3) \<Rightarrow> snd (RunJob e (PreReleaseJob cfg) tr3)))"

text \<open>
  The function of the \<open>go\<close> statement in \<open>CutRelease\<close>, with the variables it captures as
  arguments. It returns nothing; its result is the run it makes, if it ends.
\<close>

definition CutRelease_go ::
  "env \<Rightarrow> Config \<Rightarrow> string \<Rightarrow> string \<Rightarrow> string \<Rightarrow> bool \<Rightarrow> string \<Rightarrow> string \<Rightarrow> trace \<Rightarrow> trace option" where
  "CutRelease_go e cfg release rcpart isFirstMinorReleaseStr backportRelease releaseBranch fullRelease tr =
     (case RunJobWaitForResult e (ReleaseJob cfg)
             (Some [(''MM_VERSION'', release), (''MM_RC'', rcpart),
                    (''IS_FIRST_MINOR_RELEASE'', isFirstMinorReleaseStr)]) tr of
        None \<Rightarrow> None
      | Some ((result, err), tr1) \<Rightarrow>
          (if err \<noteq> None \<or> result \<noteq> STATUS_SUCCESS then Some tr1
           else if \<not> backportRelease then Some (lastStage e cfg releaseBranch fullRelease tr1)
           else Some tr1))"

text \<open>A started goroutine: the run it will make from the run so far.\<close>

type_synonym goroutine = "trace \<Rightarrow> trace option"

text \<open>
  \<open>CutRelease\<close> returns its \<open>*AppError\<close>, the run up to its return, and the goroutine it
  started, if it started one. The slice \<open>release[:len(release)-2]\<close> panics on a string
  shorter than two bytes.
\<close>

definition CutRelease ::
  "env \<Rightarrow> Config \<Rightarrow> string \<Rightarrow> string \<Rightarrow> bool \<Rightarrow> bool \<Rightarrow> trace
     \<Rightarrow> (AppError option outcome \<times> trace \<times> goroutine option) option" where
  "CutRelease e cfg release rc isFirstMinorRelease backportRelease tr =
     (if length release < 2 then Some (Panic, tr, None)
      else
        (let shortRelease = take (length release - 2) release;
             releaseBranch = ''release-'' @ shortRelease;
             fullRelease = (if rc = [] then release else release @ ''-'' @ rc);
             rcpart = (if rc = [] then [] else ''-'' @ rc);
             isFirstMinorReleaseStr = (if isFirstMinorRelease then ''true'' else ''false'')
         in case RunReleasePrechecks e cfg tr of
              None \<Rightarrow> None
            | Some (Some err, tr1) \<Rightarrow> Some (Return (Some err), tr1, None)
            | Some (None, tr1) \<Rightarrow>
                Some (Return None, tr1,
                      Some (CutRelease_go e cfg release rcpart isFirstMinorReleaseStr
                              backportRelease releaseBranch fullRelease))))"

text \<open>
  Modelled from the spec: the \<open>CutRelease\<close> with a dry-run parameter, which
  \<open>cutReleaseCommandF\<close> calls with five arguments (server.go, line 366); the files of the
  repository hold the \<open>CutRelease\<close> with four parameters only. The spec gives the workflow
  the steps of that function: the pre-checks job, run for real also in a dry run; then,
  detached, the release job with the version, the rc suffix and the first-minor-release
  flag, awaited; and the last stage, which it runs "if this is not a backport AND not a
  dry run". The backport parameter has no other use in the four-parameter function than
  to switch off the last stage, so the missing function is that one, called with the
  last stage switched off for a backport or a dry run.
\<close>

definition CutRelease_dryrun ::
  "env \<Rightarrow> Config \<Rightarrow> string \<Rightarrow> string \<Rightarrow> bool \<Rightarrow> bool \<Rightarrow> bool \<Rightarrow> trace
     \<Rightarrow> (AppError option outcome \<times> trace \<times> goroutine option) option" where
  "CutRelease_dryrun e cfg release rc isFirstMinorRelease backportRelease isDryRun tr =
     CutRelease e cfg release rc isFirstMinorRelease (backportRelease \<or> isDryRun) tr"

section \<open>The slash command server\<close>

record MMSlashCommand =
  ChannelId :: string
  ChannelName :: string
  Command :: string
  TeamName :: string
  TeamId :: string
  Text :: string
  Token :: string
  UserId :: string
  Username :: string

text \<open>The three loops of \<open>checkSlashPermissions\<close> look for an entry equal to a string.\<close>

fun hasEntry :: "string list \<Rightarrow> string \<Rightarrow> bool" where
  "hasEntry [] s = False"
| "hasEntry (allowed # rest) s = (if allowed = s then True else hasEntry rest s)"

definition checkSlashPermissions :: "Config \<Rightarrow> MMSlashCommand \<Rightarrow> AppError option" where
  "checkSlashPermissions cfg command =
     (if \<not> hasEntry (AllowedTokens cfg) (Token command)
      then Some (NewError ''Token for slash command is incorrect'' NilError)
      else if \<not> hasEntry (AllowedUsers cfg) (UserId command)
      then Some (NewError ''You don't have permissions to use this command.'' NilError)
      else if Command command = ''cut'' \<and> \<not> hasEntry (ReleaseUsers cfg) (UserId command)
      then Some (NewError ''You don't have permissions to use this command.'' NilError)
      else None)"

text \<open>
  The subcommands that \<open>slashCommandHandler\<close> adds to the root command, by the first word
  of their \<open>Use\<close> field. The root command gets the fields of the request's \<open>Text\<close> as its
  arguments, and the cobra library looks for the subcommand in them.
\<close>

datatype action =
    CutCmd | ConfigDumpCmd | SetCIBranchCmd | RunJobCmd | SetPreReleaseCmd
  | CheckCutReleaseStatusCmd | LockTranslationServerCmd | CheckBranchTranslationCmd
  | MergeReleaseBranchToMasterCmd | LoadtestKubeCmd

definition subcommands :: "(string \<times> action) list" where
  "subcommands =
     [(''cut'', CutCmd), (''seeconf'', ConfigDumpCmd), (''setci'', SetCIBranchCmd),
      (''runjob'', RunJobCmd), (''setprerelease'', SetPreReleaseCmd),
      (''cutstatus'', CheckCutReleaseStatusCmd), (''lockpootle'', LockTranslationServerCmd),
      (''getpootle'', CheckBranchTranslationCmd), (''merge'', MergeReleaseBranchToMasterCmd),
      (''loadtest'', LoadtestKubeCmd)]"

text \<open>
  \<open>stripFlags\<close> of cobra, for the root command, which has no flags of its own when the
  subcommand is looked for: the arguments that are no flags. \<open>--\<close> ends the search; a flag
  written without \<open>=\<close> (\<open>--name\<close>, or \<open>-x\<close> of two bytes) takes the next argument as its
  value, and ends the search when at most one argument is left; any other argument that
  starts with \<open>-\<close>, and the empty argument, is skipped.
\<close>

fun stripFlags :: "string list \<Rightarrow> string list" where
  "stripFlags [] = []"
| "stripFlags (s # args) =
     (if s = ''--'' then []
      else if (HasPrefix s ''--'' \<and> CHR ''='' \<notin> set s)
              \<or> (HasPrefix s ''-'' \<and> CHR ''='' \<notin> set s \<and> length s = 2)
      then (if length args \<le> 1 then [] else stripFlags (tl args))
      else if s \<noteq> [] \<and> \<not> HasPrefix s ''-'' then s # stripFlags args
      else stripFlags args)"

text \<open>The subcommand that cobra finds for the request (\<open>Command.Find\<close>), the one named by
  the first argument that is no flag; \<open>None\<close> when there is no such argument or it names
  none of the commands above. Cobra runs the subcommand it finds, unless the flags given
  to it do not parse.\<close>

definition requestedAction :: "MMSlashCommand \<Rightarrow> action option" where
  "requestedAction command =
     (case stripFlags (Fields (TrimSpace (Text command))) of
        [] \<Rightarrow> None
      | name # args \<Rightarrow> map_of subcommands name)"

subsection \<open>The cut command\<close>

text \<open>Lines 324 to 340 of \<open>cutReleaseCommandF\<close>: the version string is refused with a
  message, or split into \<open>releasePart\<close>, \<open>rcPart\<close> and \<open>isFirstMinorRelease\<close>.\<close>

datatype version = BadVersion string | Version string string bool

definition parseVersion :: "string \<Rightarrow> version" where
  "parseVersion versionString =
     (if MatchString rcRxp versionString then
        (let split = Split versionString CHR ''-'' in
         if length split \<noteq> 2
         then BadVersion ''Bad version argument. Can't split on -. Typo? If not the regex might be broken. If so be more careful!!''
         else Version (split ! 0) (split ! 1)
                (split ! 1 = ''rc1'' \<and> HasSuffix (split ! 0) ''.0''))
      else if MatchString finalVersionRxp versionString then Version versionString [] False
      else BadVersion ''Bad version argument. Typo? If not the regex might be broken. If so be more careful!!'')"

text \<open>The address probed for a release candidate of the next minor version.\<close>

definition s3URL :: "string \<Rightarrow> string" where
  "s3URL oneReleaseUp =
     ''http://releases.mattermost.com/'' @ oneReleaseUp @ ''-rc1/mattermost-'' @ oneReleaseUp
       @ ''-rc1-linux-amd64.tar.gz''"

text \<open>Lines 344 to 363, the body of \<open>if !backport\<close>: \<open>True\<close> when the handler has written its
  answer and returns.\<close>

definition futureReleaseCheck :: "env \<Rightarrow> string \<Rightarrow> trace \<Rightarrow> bool \<times> trace" where
  "futureReleaseCheck e releasePart tr =
     (let splitRelease = Split releasePart CHR ''.'' in
      if length splitRelease \<noteq> 3
      then (True, WriteErrorResponse (NewError ''Bad version argument.'' NilError) tr)
      else
        (case Atoi (splitRelease ! 1) of
           None \<Rightarrow> (True, WriteErrorResponse (NewError ''Bad version argument.'' NilError) tr)
         | Some intVer \<Rightarrow>
             (let splitRelease1 = splitRelease[1 := Itoa (wrap64 (intVer + 1))];
                  splitRelease2 = splitRelease1[2 := ''0''];
                  oneReleaseUp = Join splitRelease2 ''.'';
                  (resp, tr1) = http_Get e (s3URL oneReleaseUp) tr
              in if resp = Inr 200
                 then (True, WriteErrorResponse
                         (NewError (''Are you sure this isn't a backport release? I see a future release on s3. (''
                                      @ oneReleaseUp @ '')'' @ ''OK'') NilError) tr1)
                 else (False, tr1))))"

text \<open>
  \<open>cutReleaseCommandF\<close> returns an \<open>error\<close>. Its call of \<open>CutRelease\<close> has five arguments,
  the last of them \<open>dryrun\<close>: it is a call of \<open>CutRelease_dryrun\<close>.
\<close>

definition cutReleaseCommandF ::
  "env \<Rightarrow> Config \<Rightarrow> string list \<Rightarrow> bool \<Rightarrow> bool \<Rightarrow> trace
     \<Rightarrow> (error outcome \<times> trace \<times> goroutine option) option" where
  "cutReleaseCommandF e cfg args backport dryrun tr =
     (if length args < 1
      then Some (Return (AppErrorPtr (Some (NewError ''You need to specifiy a release version.'' NilError))),
                 tr, None)
      else
        (let versionString = args ! 0 in
         case parseVersion versionString of
           BadVersion msg \<Rightarrow> Some (Return NilError, WriteErrorResponse (NewError msg NilError) tr, None)
         | Version releasePart rcPart isFirstMinorRelease \<Rightarrow>
             (let (answered, tr1) =
                    (if \<not> backport then futureReleaseCheck e releasePart tr else (False, tr))
              in if answered then Some (Return NilError, tr1, None)
                 else
                   (case CutRelease_dryrun e cfg releasePart rcPart isFirstMinorRelease backport dryrun tr1 of
                      None \<Rightarrow> None
                    | Some (Panic, tr2, g) \<Rightarrow> Some (Panic, tr2, g)
                    | Some (Return (Some err), tr2, g) \<Rightarrow>
                        Some (Return NilError, WriteErrorResponse err tr2, g)
                    | Some (Return None, tr2, g) \<Rightarrow>
                        Some (Return NilError,
                              WriteEnrichedResponse ''Cut Release''
                                (''Release **'' @ args ! 0 @ ''** is on the way.'')
                                ''#0060aa'' IN_CHANNEL tr2, g)))))"

section \<open>Concrete remote systems\<close>

text \<open>A remote side where every call succeeds at once: jobs have the next build number 7,
  builds are reachable, finished and successful, and every job configuration has both
  elements.\<close>

definition quietRoot :: element where
  "quietRoot = [defaultValuePath \<mapsto> ''master'',
                upstreamProjectsPath \<mapsto> ''mattermost-enterprise'']"

text \<open>The written form of a document shows the texts of the two elements.\<close>

definition quietWrite :: "document \<Rightarrow> string" where
  "quietWrite d =
     (case d of
        None \<Rightarrow> []
      | Some root \<Rightarrow>
          case_option ''-'' id (root defaultValuePath) @ ''|''
            @ case_option ''-'' id (root upstreamProjectsPath))"

definition quietRemote :: env where
  "quietRemote =
     \<lparr> createJenkins_r = (\<lambda>k. None),
       getJob_r = (\<lambda>k. Inr 7),
       invokeSimple_r = (\<lambda>k. None),
       poll_r = (\<lambda>k. (200, None)),
       isRunning_r = (\<lambda>k. False),
       getResult_r = (\<lambda>k. ''SUCCESS''),
       getConfig_r = (\<lambda>k. Inr ''<project/>''),
       updateConfig_r = (\<lambda>k. None),
       httpGet_r = (\<lambda>k. Inr 404),
       readFromString = (\<lambda>s. Inr (Some quietRoot)),
       writeToString = (\<lambda>d. Inr (quietWrite d)) \<rparr>"

definition demoConfig :: Config where
  "demoConfig =
     \<lparr> PreChecksJob = ''pre'', ReleaseJob = ''rel'', PreReleaseJob = ''prerel'',
       CIServerJobs = [''ci1'', ''ci2''],
       AllowedTokens = [''t''], AllowedUsers = [''u''], ReleaseUsers = [''r''] \<rparr>"

section \<open>The grammar of version strings\<close>

text \<open>A byte below 128 is a character by itself.\<close>

definition ascii :: "char \<Rightarrow> bool" where
  "ascii c = ((of_char c :: nat) < 128)"

text \<open>A component of a version: one or more decimal digits.\<close>

definition digits :: "string \<Rightarrow> bool" where
  "digits s = (s \<noteq> [] \<and> list_all isDigit s)"

section \<open>Runs that extend a run\<close>

text \<open>The run \<open>tr'\<close> is the run \<open>tr\<close> followed by events that all satisfy \<open>Q\<close>.\<close>

definition appended :: "trace \<Rightarrow> trace \<Rightarrow> (call \<Rightarrow> bool) \<Rightarrow> bool" where
  "appended tr tr' Q = (\<exists>evs. tr' = tr @ evs \<and> list_all Q evs)"

text \<open>The jobs to which a run sends a configuration, in order.\<close>

fun updatedJobs :: "trace \<Rightarrow> string list" where
  "updatedJobs [] = []"
| "updatedJobs (c # evs) =
     (case c of
        UpdateConfig job config \<Rightarrow> job # updatedJobs evs
      | _ \<Rightarrow> updatedJobs evs)"

section \<open>Concrete requests\<close>

text \<open>A request of an allowed user who is no release user: the slash command is
  \<open>/matterbuild\<close> and its text asks for a release cut.\<close>

definition cutRequest :: MMSlashCommand where
  "cutRequest =
     \<lparr> ChannelId = ''c1'', ChannelName = ''builds'', Command = ''/matterbuild'',
       TeamName = ''core'', TeamId = ''t1'', Text = ''cut 5.3.0'',
       Token = ''t'', UserId = ''u'', Username = ''dev'' \<rparr>"

section \<open>Facts about runs\<close>

lemma ncalls_Nil [simp]: "ncalls P [] = 0"
  by (simp add: ncalls_def)

lemma ncalls_append [simp]: "ncalls P (xs @ ys) = ncalls P xs + ncalls P ys"
  by (simp add: ncalls_def)

lemma ncalls_Cons [simp]: "ncalls P (x # xs) = (if P x then Suc (ncalls P xs) else ncalls P xs)"
  by (simp add: ncalls_def)

lemma ncalls_concat_replicate [simp]: "ncalls P (concat (replicate k xs)) = k * ncalls P xs"
  by (induction k) simp_all

lemma getJob_ok:
  assumes "createJenkins_r e (ncalls is_CreateJenkins tr) = None"
      and "getJob_r e (ncalls is_GetJob tr) = Inr n"
  shows "getJob e name tr =
           (Inr \<lparr>JobName = name, NextBuildNumber = n\<rparr>, tr @ [CreateJenkins, GetJob name])"
  using assms by (simp add: getJob_def getJenkins_def jenkins_Init_def jenkins_GetJob_def)

lemma waitLoop_finishes:
  "(\<forall>i<k. isRunning_r e (ncalls is_IsRunning tr + i)) \<Longrightarrow>
   \<not> isRunning_r e (ncalls is_IsRunning tr + k) \<Longrightarrow>
   waitLoop e base tr =
     Some (tr @ concat (replicate k [IsRunning base, Sleep 1, Poll base]) @ [IsRunning base])"
proof (induction k arbitrary: tr)
  case 0
  then show ?case
    by (subst waitLoop.simps) (simp add: build_IsRunning_def)
next
  case (Suc k)
  let ?tr' = "tr @ [IsRunning base, Sleep 1, Poll base]"
  have run0: "isRunning_r e (ncalls is_IsRunning tr)"
    using Suc.prems(1) by (metis add.right_neutral zero_less_Suc)
  have "\<forall>i<k. isRunning_r e (ncalls is_IsRunning ?tr' + i)"
    using Suc.prems(1) by (auto simp: less_Suc_eq_0_disj)
  moreover have "\<not> isRunning_r e (ncalls is_IsRunning ?tr' + k)"
    using Suc.prems(2) by simp
  ultimately have "waitLoop e base ?tr' =
      Some (?tr' @ concat (replicate k [IsRunning base, Sleep 1, Poll base]) @ [IsRunning base])"
    by (rule Suc.IH)
  then show ?case
    using run0
    by (subst waitLoop.simps) (simp add: build_IsRunning_def build_Poll_def time_Sleep_def)
qed

lemma reachLoop_ok:
  "snd r = None \<Longrightarrow> fst r = 200 \<Longrightarrow> reachLoop e base n tries r tr = (None, tr)"
  by (subst reachLoop.simps) simp

lemma reachLoop_retry:
  "snd r \<noteq> None \<or> fst r \<noteq> 200 \<Longrightarrow> tries < 5 \<Longrightarrow>
   reachLoop e base n tries r tr =
     reachLoop e base n (tries + 1) (poll_r e (ncalls is_Poll tr)) (tr @ [Poll base, Sleep tries])"
  by (subst reachLoop.simps) (simp add: build_Poll_def time_Sleep_def)

lemma reachLoop_give_up:
  "snd r \<noteq> None \<or> fst r \<noteq> 200 \<Longrightarrow> 5 \<le> tries \<Longrightarrow>
   reachLoop e base n tries r tr =
     (Some (NewError (''Unable to get build for pre-checks job: '' @ Itoa n)
              (lib_error (snd (poll_r e (ncalls is_Poll tr))))), tr @ [Poll base])"
  by (subst reachLoop.simps) (simp add: build_Poll_def)

text \<open>The whole function, once the job is fetched and invoked, in terms of its two loops.\<close>

lemma RunJobWaitForResult_started:
  assumes "createJenkins_r e (ncalls is_CreateJenkins tr) = None"
      and "getJob_r e (ncalls is_GetJob tr) = Inr n"
      and "invokeSimple_r e (ncalls is_InvokeSimple tr) = None"
      and "reachLoop e (buildBase name n) n 1 (poll_r e (ncalls is_Poll tr))
             (tr @ [CreateJenkins, GetJob name, InvokeSimple name ps,
                    Poll (buildBase name n)]) = (res, tr4)"
  shows "RunJobWaitForResult e name ps tr =
           (case res of
              Some err4 \<Rightarrow> Some (([], Some err4), tr4)
            | None \<Rightarrow>
                (case waitLoop e (buildBase name n)
                        (tr4 @ [Sleep 5, Poll (buildBase name n)]) of
                   None \<Rightarrow> None
                 | Some tr5 \<Rightarrow>
                     Some ((getResult_r e (ncalls is_GetResult tr5), None),
                           tr5 @ [GetResult (buildBase name n)])))"
  using assms(3,4)
  by (simp add: RunJobWaitForResult_def getJob_ok [OF assms(1,2)] job_InvokeSimple_def
      build_Poll_def time_Sleep_def build_GetResult_def split: option.splits)

lemma reachLoop_fifth_poll:
  assumes "snd r \<noteq> None \<or> fst r \<noteq> 200"
      and "snd (poll_r e (ncalls is_Poll tr)) \<noteq> None \<or> fst (poll_r e (ncalls is_Poll tr)) \<noteq> 200"
      and "snd (poll_r e (Suc (ncalls is_Poll tr))) \<noteq> None
             \<or> fst (poll_r e (Suc (ncalls is_Poll tr))) \<noteq> 200"
      and "snd (poll_r e (Suc (Suc (ncalls is_Poll tr)))) \<noteq> None
             \<or> fst (poll_r e (Suc (Suc (ncalls is_Poll tr)))) \<noteq> 200"
      and "poll_r e (Suc (Suc (Suc (ncalls is_Poll tr)))) = (200, None)"
  shows "reachLoop e b n 1 r tr =
           (None, tr @ [Poll b, Sleep 1, Poll b, Sleep 2, Poll b, Sleep 3, Poll b, Sleep 4])"
proof -
  let ?t1 = "tr @ [Poll b, Sleep 1]"
  let ?t2 = "?t1 @ [Poll b, Sleep 2]"
  let ?t3 = "?t2 @ [Poll b, Sleep 3]"
  let ?t4 = "?t3 @ [Poll b, Sleep 4]"
  have "reachLoop e b n 1 r tr = reachLoop e b n 2 (poll_r e (ncalls is_Poll tr)) ?t1"
    using assms(1) by (simp add: reachLoop_retry)
  also have "\<dots> = reachLoop e b n 3 (poll_r e (Suc (ncalls is_Poll tr))) ?t2"
    using assms(2) by (simp add: reachLoop_retry)
  also have "\<dots> = reachLoop e b n 4 (poll_r e (Suc (Suc (ncalls is_Poll tr)))) ?t3"
    using assms(3) by (simp add: reachLoop_retry)
  also have "\<dots> = reachLoop e b n 5 (poll_r e (Suc (Suc (Suc (ncalls is_Poll tr))))) ?t4"
    using assms(4) by (simp add: reachLoop_retry)
  also have "\<dots> = (None, ?t4)"
    using assms(5) by (simp add: reachLoop_ok)
  finally show ?thesis by simp
qed

lemma reachLoop_all_fail:
  assumes "snd r \<noteq> None \<or> fst r \<noteq> 200"
      and "snd (poll_r e (ncalls is_Poll tr)) \<noteq> None \<or> fst (poll_r e (ncalls is_Poll tr)) \<noteq> 200"
      and "snd (poll_r e (Suc (ncalls is_Poll tr))) \<noteq> None
             \<or> fst (poll_r e (Suc (ncalls is_Poll tr))) \<noteq> 200"
      and "snd (poll_r e (Suc (Suc (ncalls is_Poll tr)))) \<noteq> None
             \<or> fst (poll_r e (Suc (Suc (ncalls is_Poll tr)))) \<noteq> 200"
      and "snd (poll_r e (Suc (Suc (Suc (ncalls is_Poll tr))))) \<noteq> None
             \<or> fst (poll_r e (Suc (Suc (Suc (ncalls is_Poll tr))))) \<noteq> 200"
  shows "reachLoop e b n 1 r tr =
           (Some (NewError (''Unable to get build for pre-checks job: '' @ Itoa n)
                    (lib_error (snd (poll_r e (Suc (Suc (Suc (Suc (ncalls is_Poll tr))))))))),
            tr @ [Poll b, Sleep 1, Poll b, Sleep 2, Poll b, Sleep 3, Poll b, Sleep 4, Poll b])"
proof -
  let ?t1 = "tr @ [Poll b, Sleep 1]"
  let ?t2 = "?t1 @ [Poll b, Sleep 2]"
  let ?t3 = "?t2 @ [Poll b, Sleep 3]"
  let ?t4 = "?t3 @ [Poll b, Sleep 4]"
  have "reachLoop e b n 1 r tr = reachLoop e b n 2 (poll_r e (ncalls is_Poll tr)) ?t1"
    using assms(1) by (simp add: reachLoop_retry)
  also have "\<dots> = reachLoop e b n 3 (poll_r e (Suc (ncalls is_Poll tr))) ?t2"
    using assms(2) by (simp add: reachLoop_retry)
  also have "\<dots> = reachLoop e b n 4 (poll_r e (Suc (Suc (ncalls is_Poll tr)))) ?t3"
    using assms(3) by (simp add: reachLoop_retry)
  also have "\<dots> = reachLoop e b n 5 (poll_r e (Suc (Suc (Suc (ncalls is_Poll tr))))) ?t4"
    using assms(4) by (simp add: reachLoop_retry)
  also have "\<dots> = (Some (NewError (''Unable to get build for pre-checks job: '' @ Itoa n)
                    (lib_error (snd (poll_r e (Suc (Suc (Suc (Suc (ncalls is_Poll tr))))))))),
            ?t4 @ [Poll b])"
    using assms(5) by (simp add: reachLoop_give_up)
  finally show ?thesis by simp
qed

text \<open>
  C1. Let the job be fetched and invoked. If the poll of the build fails (an error, or a
  status other than 200) on its first four attempts and succeeds on the fifth, the
  function goes on to the completion wait and, when the build stops running after \<open>k\<close>
  further polls, returns the build's result with no error. If the first five polls fail,
  it returns the error "Unable to get build" after the sixth poll, the fifth of the retry
  loop, having slept 1, 2, 3 and 4 seconds after the first four retries.
\<close>

theorem RunJobWaitForResult_reachability:
  assumes "createJenkins_r e (ncalls is_CreateJenkins tr) = None"
      and "getJob_r e (ncalls is_GetJob tr) = Inr n"
      and "invokeSimple_r e (ncalls is_InvokeSimple tr) = None"
  shows "((\<forall>i<4. snd (poll_r e (ncalls is_Poll tr + i)) \<noteq> None
                  \<or> fst (poll_r e (ncalls is_Poll tr + i)) \<noteq> 200)
          \<and> poll_r e (ncalls is_Poll tr + 4) = (200, None)
          \<and> (\<forall>i<k. isRunning_r e (ncalls is_IsRunning tr + i))
          \<and> \<not> isRunning_r e (ncalls is_IsRunning tr + k)
          \<longrightarrow> RunJobWaitForResult e name ps tr =
                Some ((getResult_r e (ncalls is_GetResult tr), None),
                      tr @ [CreateJenkins, GetJob name, InvokeSimple name ps,
                            Poll (buildBase name n),
                            Poll (buildBase name n), Sleep 1, Poll (buildBase name n), Sleep 2,
                            Poll (buildBase name n), Sleep 3, Poll (buildBase name n), Sleep 4,
                            Sleep 5, Poll (buildBase name n)]
                         @ concat (replicate k [IsRunning (buildBase name n), Sleep 1,
                                                Poll (buildBase name n)])
                         @ [IsRunning (buildBase name n), GetResult (buildBase name n)]))
       \<and> ((\<forall>i<5. snd (poll_r e (ncalls is_Poll tr + i)) \<noteq> None
                  \<or> fst (poll_r e (ncalls is_Poll tr + i)) \<noteq> 200)
          \<longrightarrow> RunJobWaitForResult e name ps tr =
                Some (([], Some (NewError (''Unable to get build for pre-checks job: '' @ Itoa n)
                                   (lib_error (snd (poll_r e (ncalls is_Poll tr + 5)))))),
                      tr @ [CreateJenkins, GetJob name, InvokeSimple name ps,
                            Poll (buildBase name n),
                            Poll (buildBase name n), Sleep 1, Poll (buildBase name n), Sleep 2,
                            Poll (buildBase name n), Sleep 3, Poll (buildBase name n), Sleep 4,
                            Poll (buildBase name n)]))"
proof (intro conjI impI)
  let ?b = "buildBase name n"
  let ?p = "ncalls is_Poll tr"
  let ?t3 = "tr @ [CreateJenkins, GetJob name, InvokeSimple name ps, Poll ?b]"
  let ?fails = "\<lambda>i. snd (poll_r e (?p + i)) \<noteq> None \<or> fst (poll_r e (?p + i)) \<noteq> 200"
  have p3: "ncalls is_Poll ?t3 = Suc ?p" by simp
  have idx: "?p + 3 = Suc (Suc (Suc ?p))" "?p + 4 = Suc (Suc (Suc (Suc ?p)))"
    "?p + 5 = Suc (Suc (Suc (Suc (Suc ?p))))"
    by simp_all
  {
    assume h: "(\<forall>i<4. ?fails i) \<and> poll_r e (?p + 4) = (200, None)
                \<and> (\<forall>i<k. isRunning_r e (ncalls is_IsRunning tr + i))
                \<and> \<not> isRunning_r e (ncalls is_IsRunning tr + k)"
    have fi: "\<And>i. i < 4 \<Longrightarrow> ?fails i"
      using h by blast
    have f: "?fails 0" "?fails 1" "?fails 2" "?fails 3"
      by (rule fi, simp)+
    let ?t4 = "?t3 @ [Poll ?b, Sleep 1, Poll ?b, Sleep 2, Poll ?b, Sleep 3, Poll ?b, Sleep 4]"
    have reach: "reachLoop e ?b n 1 (poll_r e ?p) ?t3 = (None, ?t4)"
      using f h by (intro reachLoop_fifth_poll) (simp_all add: p3 idx)
    let ?t5 = "?t4 @ [Sleep 5, Poll ?b]"
    have wait: "waitLoop e ?b ?t5 =
        Some (?t5 @ concat (replicate k [IsRunning ?b, Sleep 1, Poll ?b]) @ [IsRunning ?b])"
      using h by (intro waitLoop_finishes) simp_all
    show "RunJobWaitForResult e name ps tr =
            Some ((getResult_r e (ncalls is_GetResult tr), None),
                  tr @ [CreateJenkins, GetJob name, InvokeSimple name ps, Poll ?b,
                        Poll ?b, Sleep 1, Poll ?b, Sleep 2, Poll ?b, Sleep 3, Poll ?b, Sleep 4,
                        Sleep 5, Poll ?b]
                     @ concat (replicate k [IsRunning ?b, Sleep 1, Poll ?b])
                     @ [IsRunning ?b, GetResult ?b])"
      using wait
      by (simp add: RunJobWaitForResult_started [OF assms reach])
  }
  {
    assume h: "\<forall>i<5. ?fails i"
    have fi: "\<And>i. i < 5 \<Longrightarrow> ?fails i"
      using h by blast
    have f: "?fails 0" "?fails 1" "?fails 2" "?fails 3" "?fails 4"
      by (rule fi, simp)+
    have reach: "reachLoop e ?b n 1 (poll_r e ?p) ?t3 =
        (Some (NewError (''Unable to get build for pre-checks job: '' @ Itoa n)
                 (lib_error (snd (poll_r e (?p + 5))))),
         ?t3 @ [Poll ?b, Sleep 1, Poll ?b, Sleep 2, Poll ?b, Sleep 3, Poll ?b, Sleep 4, Poll ?b])"
      using f reachLoop_all_fail [of "poll_r e ?p" e ?t3 ?b n] by (simp add: p3 idx)
    show "RunJobWaitForResult e name ps tr =
            Some (([], Some (NewError (''Unable to get build for pre-checks job: '' @ Itoa n)
                               (lib_error (snd (poll_r e (?p + 5)))))),
                  tr @ [CreateJenkins, GetJob name, InvokeSimple name ps, Poll ?b,
                        Poll ?b, Sleep 1, Poll ?b, Sleep 2, Poll ?b, Sleep 3, Poll ?b, Sleep 4,
                        Poll ?b])"
      by (simp add: RunJobWaitForResult_started [OF assms reach])
  }
qed

lemma Itoa_7: "Itoa 7 = ''7''"
  by (simp add: Itoa_def nat_dec.simps digit_char_def)

theorem RunJobWaitForResult_reachability_witness:
  "RunJobWaitForResult
     (quietRemote\<lparr>poll_r := (\<lambda>k. if k < 4 then (404, Some ''not found'') else (200, None))\<rparr>)
     ''pre'' None [] =
     Some ((''SUCCESS'', None),
           [CreateJenkins, GetJob ''pre'', InvokeSimple ''pre'' None,
            Poll ''/job/pre/7'', Poll ''/job/pre/7'', Sleep 1, Poll ''/job/pre/7'', Sleep 2,
            Poll ''/job/pre/7'', Sleep 3, Poll ''/job/pre/7'', Sleep 4,
            Sleep 5, Poll ''/job/pre/7'', IsRunning ''/job/pre/7'', GetResult ''/job/pre/7''])
   \<and> RunJobWaitForResult (quietRemote\<lparr>poll_r := (\<lambda>k. (404, Some ''not found''))\<rparr>)
       ''pre'' None [] =
     Some (([], Some (NewError ''Unable to get build for pre-checks job: 7''
                        (ExternalError ''not found''))),
           [CreateJenkins, GetJob ''pre'', InvokeSimple ''pre'' None,
            Poll ''/job/pre/7'', Poll ''/job/pre/7'', Sleep 1, Poll ''/job/pre/7'', Sleep 2,
            Poll ''/job/pre/7'', Sleep 3, Poll ''/job/pre/7'', Sleep 4, Poll ''/job/pre/7''])"
proof (rule conjI)
  show "RunJobWaitForResult
     (quietRemote\<lparr>poll_r := (\<lambda>k. if k < 4 then (404, Some ''not found'') else (200, None))\<rparr>)
     ''pre'' None [] =
     Some ((''SUCCESS'', None),
           [CreateJenkins, GetJob ''pre'', InvokeSimple ''pre'' None,
            Poll ''/job/pre/7'', Poll ''/job/pre/7'', Sleep 1, Poll ''/job/pre/7'', Sleep 2,
            Poll ''/job/pre/7'', Sleep 3, Poll ''/job/pre/7'', Sleep 4,
            Sleep 5, Poll ''/job/pre/7'', IsRunning ''/job/pre/7'', GetResult ''/job/pre/7''])"
    using RunJobWaitForResult_reachability
            [where e = "quietRemote\<lparr>poll_r := (\<lambda>k. if k < 4 then (404, Some ''not found'')
                                                    else (200, None))\<rparr>"
               and tr = "[]" and n = 7 and k = 0 and name = "''pre''" and ps = None,
             THEN conjunct1]
    by (simp add: quietRemote_def buildBase_def Itoa_7)
  show "RunJobWaitForResult (quietRemote\<lparr>poll_r := (\<lambda>k. (404, Some ''not found''))\<rparr>)
       ''pre'' None [] =
     Some (([], Some (NewError ''Unable to get build for pre-checks job: 7''
                        (ExternalError ''not found''))),
           [CreateJenkins, GetJob ''pre'', InvokeSimple ''pre'' None,
            Poll ''/job/pre/7'', Poll ''/job/pre/7'', Sleep 1, Poll ''/job/pre/7'', Sleep 2,
            Poll ''/job/pre/7'', Sleep 3, Poll ''/job/pre/7'', Sleep 4, Poll ''/job/pre/7''])"
    using RunJobWaitForResult_reachability
            [where e = "quietRemote\<lparr>poll_r := (\<lambda>k. (404, Some ''not found''))\<rparr>"
               and tr = "[]" and n = 7 and k = 0 and name = "''pre''" and ps = None,
             THEN conjunct2]
    by (simp add: quietRemote_def buildBase_def Itoa_7 lib_error_def)
qed

text \<open>
  C5. Let the job be fetched and invoked, and let the reachability loop end without an
  error, after the run \<open>tr4\<close>. The function then sleeps 5 seconds and polls the build
  once; as long as the build is reported running it sleeps 1 second and polls again. If
  the build is reported running \<open>k\<close> times and then not running, the function returns the
  result the build reports, with no error, after \<open>k + 1\<close> polls of the completion wait.
\<close>

theorem RunJobWaitForResult_completion:
  assumes "createJenkins_r e (ncalls is_CreateJenkins tr) = None"
      and "getJob_r e (ncalls is_GetJob tr) = Inr n"
      and "invokeSimple_r e (ncalls is_InvokeSimple tr) = None"
      and "reachLoop e (buildBase name n) n 1 (poll_r e (ncalls is_Poll tr))
             (tr @ [CreateJenkins, GetJob name, InvokeSimple name ps, Poll (buildBase name n)])
           = (None, tr4)"
      and "\<forall>i<k. isRunning_r e (ncalls is_IsRunning tr4 + i)"
      and "\<not> isRunning_r e (ncalls is_IsRunning tr4 + k)"
  shows "RunJobWaitForResult e name ps tr =
           Some ((getResult_r e (ncalls is_GetResult tr4), None),
                 tr4 @ [Sleep 5, Poll (buildBase name n)]
                     @ concat (replicate k [IsRunning (buildBase name n), Sleep 1,
                                            Poll (buildBase name n)])
                     @ [IsRunning (buildBase name n), GetResult (buildBase name n)])
         \<and> ncalls is_Poll ([Sleep 5, Poll (buildBase name n)]
                             @ concat (replicate k [IsRunning (buildBase name n), Sleep 1,
                                                    Poll (buildBase name n)])) = k + 1"
proof -
  let ?b = "buildBase name n"
  let ?t5 = "tr4 @ [Sleep 5, Poll ?b]"
  have "waitLoop e ?b ?t5 =
      Some (?t5 @ concat (replicate k [IsRunning ?b, Sleep 1, Poll ?b]) @ [IsRunning ?b])"
    using assms(5,6) by (intro waitLoop_finishes) simp_all
  then show ?thesis
    by (simp add: RunJobWaitForResult_started [OF assms(1-4)])
qed

theorem RunJobWaitForResult_completion_witness:
  "RunJobWaitForResult (quietRemote\<lparr>isRunning_r := (\<lambda>k. k < 3)\<rparr>) ''pre'' None [] =
     Some ((''SUCCESS'', None),
           [CreateJenkins, GetJob ''pre'', InvokeSimple ''pre'' None, Poll ''/job/pre/7'',
            Sleep 5, Poll ''/job/pre/7'',
            IsRunning ''/job/pre/7'', Sleep 1, Poll ''/job/pre/7'',
            IsRunning ''/job/pre/7'', Sleep 1, Poll ''/job/pre/7'',
            IsRunning ''/job/pre/7'', Sleep 1, Poll ''/job/pre/7'',
            IsRunning ''/job/pre/7'', GetResult ''/job/pre/7''])
   \<and> ncalls is_Poll [Sleep 5, Poll ''/job/pre/7'',
                      IsRunning ''/job/pre/7'', Sleep 1, Poll ''/job/pre/7'',
                      IsRunning ''/job/pre/7'', Sleep 1, Poll ''/job/pre/7'',
                      IsRunning ''/job/pre/7'', Sleep 1, Poll ''/job/pre/7''] = 4"
proof -
  let ?e = "quietRemote\<lparr>isRunning_r := (\<lambda>k. k < 3)\<rparr>"
  let ?t3 = "[CreateJenkins, GetJob ''pre'', InvokeSimple ''pre'' None, Poll (buildBase ''pre'' 7)]"
  have reach: "reachLoop ?e (buildBase ''pre'' 7) 7 1 (poll_r ?e (ncalls is_Poll []))
                 ([] @ ?t3) = (None, ?t3)"
    by (simp add: reachLoop_ok quietRemote_def)
  show ?thesis
    using RunJobWaitForResult_completion
            [where e = ?e and tr = "[]" and n = 7 and k = 3 and name = "''pre''" and ps = None
               and ?tr4.0 = ?t3, OF _ _ _ reach]
    by (simp add: quietRemote_def buildBase_def Itoa_7 numeral_3_eq_3)
qed

lemma RunJobWaitForResult_quick:
  assumes "createJenkins_r e (ncalls is_CreateJenkins tr) = None"
      and "getJob_r e (ncalls is_GetJob tr) = Inr n"
      and "invokeSimple_r e (ncalls is_InvokeSimple tr) = None"
      and "poll_r e (ncalls is_Poll tr) = (200, None)"
      and "\<not> isRunning_r e (ncalls is_IsRunning tr)"
  shows "RunJobWaitForResult e name ps tr =
           Some ((getResult_r e (ncalls is_GetResult tr), None),
                 tr @ [CreateJenkins, GetJob name, InvokeSimple name ps, Poll (buildBase name n),
                       Sleep 5, Poll (buildBase name n), IsRunning (buildBase name n),
                       GetResult (buildBase name n)])"
proof -
  let ?b = "buildBase name n"
  let ?t3 = "tr @ [CreateJenkins, GetJob name, InvokeSimple name ps, Poll ?b]"
  have reach: "reachLoop e ?b n 1 (poll_r e (ncalls is_Poll tr)) ?t3 = (None, ?t3)"
    using assms(4) by (simp add: reachLoop_ok)
  have "waitLoop e ?b (?t3 @ [Sleep 5, Poll ?b]) =
          Some ((?t3 @ [Sleep 5, Poll ?b]) @ concat (replicate 0 [IsRunning ?b, Sleep 1, Poll ?b])
                  @ [IsRunning ?b])"
    using assms(5) by (intro waitLoop_finishes) simp_all
  then show ?thesis
    by (simp add: RunJobWaitForResult_started [OF assms(1-3) reach])
qed

text \<open>
  C6. \<open>CutRelease\<close> first runs the pre-checks job and waits for it. If that run ends with
  an error or with a result other than SUCCESS, \<open>CutRelease\<close> returns the "Pre-checks
  failed!" error, its run is the run of the pre-checks and it starts no goroutine, so the
  release job is not invoked. If the pre-checks end with SUCCESS, \<open>CutRelease\<close> returns
  nil, whatever the remote side answers afterwards: the release job and the stage after
  it belong to the goroutine it starts, whose run is no part of the returned value.
\<close>

theorem CutRelease_prechecks_gate:
  assumes "2 \<le> length release"
      and "RunJobWaitForResult e (PreChecksJob cfg) None tr = Some ((result, err), tr1)"
  shows "(err \<noteq> None \<or> result \<noteq> STATUS_SUCCESS \<longrightarrow>
            CutRelease e cfg release rc isFirstMinorRelease backportRelease tr =
              Some (Return (Some (NewError
                      (''Pre-checks failed! (Did you update the database upgrade code?) Result: ''
                         @ result) (AppErrorPtr err))), tr1, None))
       \<and> (err = None \<and> result = STATUS_SUCCESS \<longrightarrow>
            CutRelease e cfg release rc isFirstMinorRelease backportRelease tr =
              Some (Return None, tr1,
                    Some (CutRelease_go e cfg release (if rc = [] then [] else ''-'' @ rc)
                            (if isFirstMinorRelease then ''true'' else ''false'') backportRelease
                            (''release-'' @ take (length release - 2) release)
                            (if rc = [] then release else release @ ''-'' @ rc))))"
  using assms by (simp add: CutRelease_def RunReleasePrechecks_def Let_def)

theorem CutRelease_prechecks_gate_witness:
  "CutRelease (quietRemote\<lparr>getResult_r := (\<lambda>k. ''FAILURE'')\<rparr>) demoConfig
     ''5.3.0'' ''rc1'' True False [] =
     Some (Return (Some (NewError
             ''Pre-checks failed! (Did you update the database upgrade code?) Result: FAILURE''
             (AppErrorPtr None))),
           [CreateJenkins, GetJob ''pre'', InvokeSimple ''pre'' None, Poll ''/job/pre/7'',
            Sleep 5, Poll ''/job/pre/7'', IsRunning ''/job/pre/7'', GetResult ''/job/pre/7''],
           None)
   \<and> CutRelease (quietRemote\<lparr>invokeSimple_r := (\<lambda>k. if k = 0 then None else Some ''rejected'')\<rparr>)
       demoConfig ''5.3.0'' ''rc1'' True False [] =
     Some (Return None,
           [CreateJenkins, GetJob ''pre'', InvokeSimple ''pre'' None, Poll ''/job/pre/7'',
            Sleep 5, Poll ''/job/pre/7'', IsRunning ''/job/pre/7'', GetResult ''/job/pre/7''],
           Some (CutRelease_go
                   (quietRemote\<lparr>invokeSimple_r := (\<lambda>k. if k = 0 then None else Some ''rejected'')\<rparr>)
                   demoConfig ''5.3.0'' ''-rc1'' ''true'' False ''release-5.3'' ''5.3.0-rc1''))
   \<and> CutRelease_go
         (quietRemote\<lparr>invokeSimple_r := (\<lambda>k. if k = 0 then None else Some ''rejected'')\<rparr>)
         demoConfig ''5.3.0'' ''-rc1'' ''true'' False ''release-5.3'' ''5.3.0-rc1''
         [CreateJenkins, GetJob ''pre'', InvokeSimple ''pre'' None, Poll ''/job/pre/7'',
          Sleep 5, Poll ''/job/pre/7'', IsRunning ''/job/pre/7'', GetResult ''/job/pre/7''] =
       Some [CreateJenkins, GetJob ''pre'', InvokeSimple ''pre'' None, Poll ''/job/pre/7'',
             Sleep 5, Poll ''/job/pre/7'', IsRunning ''/job/pre/7'', GetResult ''/job/pre/7'',
             CreateJenkins, GetJob ''rel'',
             InvokeSimple ''rel'' (Some [(''MM_VERSION'', ''5.3.0''), (''MM_RC'', ''-rc1''),
                                        (''IS_FIRST_MINOR_RELEASE'', ''true'')])]"
proof (intro conjI)
  let ?e1 = "quietRemote\<lparr>getResult_r := (\<lambda>k. ''FAILURE'')\<rparr>"
  let ?e2 = "quietRemote\<lparr>invokeSimple_r := (\<lambda>k. if k = 0 then None else Some ''rejected'')\<rparr>"
  let ?tr = "[CreateJenkins, GetJob ''pre'', InvokeSimple ''pre'' None, Poll ''/job/pre/7'',
              Sleep 5, Poll ''/job/pre/7'', IsRunning ''/job/pre/7'', GetResult ''/job/pre/7'']"
  have run1: "RunJobWaitForResult ?e1 (PreChecksJob demoConfig) None [] =
                Some ((''FAILURE'', None), ?tr)"
    by (simp add: RunJobWaitForResult_quick [where n = 7] quietRemote_def demoConfig_def
        buildBase_def Itoa_7)
  have run2: "RunJobWaitForResult ?e2 (PreChecksJob demoConfig) None [] =
                Some ((''SUCCESS'', None), ?tr)"
    by (simp add: RunJobWaitForResult_quick [where n = 7] quietRemote_def demoConfig_def
        buildBase_def Itoa_7)
  show "CutRelease ?e1 demoConfig ''5.3.0'' ''rc1'' True False [] =
          Some (Return (Some (NewError
                  ''Pre-checks failed! (Did you update the database upgrade code?) Result: FAILURE''
                  (AppErrorPtr None))), ?tr, None)"
    using CutRelease_prechecks_gate [where release = "''5.3.0''" and rc = "''rc1''"
            and isFirstMinorRelease = True and backportRelease = False, OF _ run1, THEN conjunct1]
    by (simp add: STATUS_SUCCESS_def)
  show "CutRelease ?e2 demoConfig ''5.3.0'' ''rc1'' True False [] =
          Some (Return None, ?tr,
                Some (CutRelease_go ?e2 demoConfig ''5.3.0'' ''-rc1'' ''true'' False
                        ''release-5.3'' ''5.3.0-rc1''))"
    using CutRelease_prechecks_gate [where release = "''5.3.0''" and rc = "''rc1''"
            and isFirstMinorRelease = True and backportRelease = False, OF _ run2, THEN conjunct2]
    by (simp add: STATUS_SUCCESS_def)
  show "CutRelease_go ?e2 demoConfig ''5.3.0'' ''-rc1'' ''true'' False ''release-5.3'' ''5.3.0-rc1'' ?tr =
          Some [CreateJenkins, GetJob ''pre'', InvokeSimple ''pre'' None, Poll ''/job/pre/7'',
                Sleep 5, Poll ''/job/pre/7'', IsRunning ''/job/pre/7'', GetResult ''/job/pre/7'',
                CreateJenkins, GetJob ''rel'',
                InvokeSimple ''rel'' (Some [(''MM_VERSION'', ''5.3.0''), (''MM_RC'', ''-rc1''),
                                           (''IS_FIRST_MINOR_RELEASE'', ''true'')])]"
    by (simp add: CutRelease_go_def RunJobWaitForResult_def getJob_def getJenkins_def
        jenkins_Init_def jenkins_GetJob_def job_InvokeSimple_def quietRemote_def demoConfig_def)
qed

section \<open>Facts about version strings\<close>

lemma utf8_width_ascii: "ascii c \<Longrightarrow> utf8_width (c # s) = 1"
  by (simp add: utf8_width.simps ascii_def inRange_def)

lemma runes_ascii_Cons: "ascii c \<Longrightarrow> runes (c # s) = [c] # runes s"
  by (simp add: utf8_width_ascii)

lemma runes_ascii_append:
  "list_all ascii a \<Longrightarrow> runes (a @ s) = map (\<lambda>c. [c]) a @ runes s"
  by (induction a) (simp_all add: runes_ascii_Cons del: runes.simps(2))

lemma runes_ascii: "list_all ascii s \<Longrightarrow> runes s = map (\<lambda>c. [c]) s"
  using runes_ascii_append [of s "[]"] by simp

lemma concat_runes: "concat (runes s) = s"
  by (induction s rule: runes.induct) simp_all

lemma isDigit_ascii: "isDigit c \<Longrightarrow> ascii c"
  by (auto simp: isDigit_def ascii_def)

lemma digits_ascii: "digits a \<Longrightarrow> list_all ascii a"
  by (auto simp: digits_def list_all_iff isDigit_ascii)

lemma ascii_chars [simp]:
  "ascii CHR ''.''" "ascii CHR ''-''" "ascii CHR ''r''" "ascii CHR ''c''"
  by (simp_all add: ascii_def)

lemma matchRunes_Plus:
  "xs \<noteq> [] \<Longrightarrow> list_all (accepts k) xs \<Longrightarrow> matchRunes p rs \<Longrightarrow>
   matchRunes (Plus k # p) (xs @ rs)"
proof (induction xs)
  case Nil
  then show ?case by simp
next
  case (Cons x xs)
  then show ?case by (cases "xs = []") simp_all
qed

lemma matchRunes_digits:
  "digits a \<Longrightarrow> matchRunes p rs \<Longrightarrow> matchRunes (Plus Digit # p) (map (\<lambda>c. [c]) a @ rs)"
  by (rule matchRunes_Plus) (simp_all add: digits_def list_all_iff)

lemma matchRunes_has_literal:
  "matchRunes p rs \<Longrightarrow> Once (Lit l) \<in> set p \<Longrightarrow> [l] \<in> set rs"
  by (induction p rs rule: matchRunes.induct) auto

lemma MatchString_has_literal:
  "MatchString p s \<Longrightarrow> Once (Lit l) \<in> set p \<Longrightarrow> l \<in> set s"
proof -
  assume "MatchString p s" and "Once (Lit l) \<in> set p"
  then have "[l] \<in> set (runes s)"
    unfolding MatchString_def by (rule matchRunes_has_literal)
  then have "l \<in> set (concat (runes s))"
    by (simp only: set_concat) force
  then show ?thesis
    by (simp add: concat_runes)
qed

lemma digits_no_other:
  "digits a \<Longrightarrow> \<not> isDigit x \<Longrightarrow> x \<notin> set a"
  by (auto simp: digits_def list_all_iff)

lemma not_isDigit [simp]:
  "\<not> isDigit CHR ''.''" "\<not> isDigit CHR ''-''" "\<not> isDigit CHR ''r''" "\<not> isDigit CHR ''c''"
  by (simp_all add: isDigit_def)

lemma Split_no_sep: "sep \<notin> set a \<Longrightarrow> Split a sep = [a]"
  by (induction a) auto

lemma Split_at_sep: "sep \<notin> set a \<Longrightarrow> Split (a @ sep # rest) sep = a # Split rest sep"
  by (induction a) auto

lemma version_ascii:
  assumes "digits a" "digits b" "digits c"
  shows "list_all ascii (a @ ''.'' @ b @ ''.'' @ c)"
  using assms by (simp add: digits_ascii)

lemma final_matches:
  assumes "digits a" "digits b" "digits c"
  shows "MatchString finalVersionRxp (a @ ''.'' @ b @ ''.'' @ c)"
proof -
  let ?r = "map (\<lambda>c. [c])"
  have "matchRunes [Plus Digit] (?r c @ [])"
    using assms(3) by (intro matchRunes_digits) simp_all
  then have "matchRunes [Once AnyChar, Plus Digit] ([''.''] @ ?r c)"
    by simp
  then have "matchRunes [Plus Digit, Once AnyChar, Plus Digit] (?r b @ [''.''] @ ?r c)"
    using assms(2) by (intro matchRunes_digits)
  then have "matchRunes [Once AnyChar, Plus Digit, Once AnyChar, Plus Digit]
               ([''.''] @ ?r b @ [''.''] @ ?r c)"
    by simp
  then have "matchRunes finalVersionRxp (?r a @ [''.''] @ ?r b @ [''.''] @ ?r c)"
    unfolding finalVersionRxp_def using assms(1) by (intro matchRunes_digits)
  then show ?thesis
    unfolding MatchString_def runes_ascii [OF version_ascii [OF assms]] by simp
qed

lemma rc_matches:
  assumes "digits a" "digits b" "digits c" "digits n"
  shows "MatchString rcRxp (a @ ''.'' @ b @ ''.'' @ c @ ''-rc'' @ n)"
proof -
  let ?r = "map (\<lambda>c. [c])"
  have ascii: "list_all ascii (a @ ''.'' @ b @ ''.'' @ c @ ''-rc'' @ n)"
    using assms by (simp add: digits_ascii)
  have "matchRunes [Plus Digit] (?r n @ [])"
    using assms(4) by (intro matchRunes_digits) simp_all
  then have "matchRunes [Once (Lit CHR ''-''), Once (Lit CHR ''r''), Once (Lit CHR ''c''), Plus Digit]
               ([''-'', ''r'', ''c''] @ ?r n)"
    by simp
  then have "matchRunes [Plus Digit, Once (Lit CHR ''-''), Once (Lit CHR ''r''),
                         Once (Lit CHR ''c''), Plus Digit] (?r c @ [''-'', ''r'', ''c''] @ ?r n)"
    using assms(3) by (intro matchRunes_digits)
  then have "matchRunes [Once AnyChar, Plus Digit, Once (Lit CHR ''-''), Once (Lit CHR ''r''),
                         Once (Lit CHR ''c''), Plus Digit]
               ([''.''] @ ?r c @ [''-'', ''r'', ''c''] @ ?r n)"
    by simp
  then have "matchRunes [Plus Digit, Once AnyChar, Plus Digit, Once (Lit CHR ''-''),
                         Once (Lit CHR ''r''), Once (Lit CHR ''c''), Plus Digit]
               (?r b @ [''.''] @ ?r c @ [''-'', ''r'', ''c''] @ ?r n)"
    using assms(2) by (intro matchRunes_digits)
  then have "matchRunes [Once AnyChar, Plus Digit, Once AnyChar, Plus Digit, Once (Lit CHR ''-''),
                         Once (Lit CHR ''r''), Once (Lit CHR ''c''), Plus Digit]
               ([''.''] @ ?r b @ [''.''] @ ?r c @ [''-'', ''r'', ''c''] @ ?r n)"
    by simp
  then have "matchRunes rcRxp
               (?r a @ [''.''] @ ?r b @ [''.''] @ ?r c @ [''-'', ''r'', ''c''] @ ?r n)"
    unfolding rcRxp_def using assms(1) by (intro matchRunes_digits)
  then show ?thesis
    unfolding MatchString_def runes_ascii [OF ascii] by simp
qed

lemma final_not_rc:
  assumes "digits a" "digits b" "digits c"
  shows "\<not> MatchString rcRxp (a @ ''.'' @ b @ ''.'' @ c)"
proof
  assume "MatchString rcRxp (a @ ''.'' @ b @ ''.'' @ c)"
  then have "CHR ''r'' \<in> set (a @ ''.'' @ b @ ''.'' @ c)"
    by (rule MatchString_has_literal) (simp add: rcRxp_def)
  then show False
    using assms by (auto dest: digits_no_other [where x = "CHR ''r''"])
qed

lemma Split_rc_version:
  assumes "digits a" "digits b" "digits c" "digits n"
  shows "Split (a @ ''.'' @ b @ ''.'' @ c @ ''-rc'' @ n) CHR ''-'' =
           [a @ ''.'' @ b @ ''.'' @ c, ''rc'' @ n]"
proof -
  have 1: "CHR ''-'' \<notin> set (a @ ''.'' @ b @ ''.'' @ c)"
    using assms by (auto dest: digits_no_other [where x = "CHR ''-''"])
  have 2: "CHR ''-'' \<notin> set (''rc'' @ n)"
    using assms by (auto dest: digits_no_other [where x = "CHR ''-''"])
  have "Split ((a @ ''.'' @ b @ ''.'' @ c) @ CHR ''-'' # (''rc'' @ n)) CHR ''-'' =
          (a @ ''.'' @ b @ ''.'' @ c) # Split (''rc'' @ n) CHR ''-''"
    using 1 by (rule Split_at_sep)
  then show ?thesis
    using Split_no_sep [OF 2] by simp
qed

lemma parseVersion_final:
  assumes "digits a" and "digits b" and "digits c"
  shows "parseVersion (a @ ''.'' @ b @ ''.'' @ c) = Version (a @ ''.'' @ b @ ''.'' @ c) [] False"
  using final_not_rc [OF assms] final_matches [OF assms]
  by (simp add: parseVersion_def)

lemma parseVersion_rc:
  assumes "digits a" and "digits b" and "digits c" and "digits n"
  shows "parseVersion (a @ ''.'' @ b @ ''.'' @ c @ ''-rc'' @ n) =
           Version (a @ ''.'' @ b @ ''.'' @ c) (''rc'' @ n)
             (''rc'' @ n = ''rc1'' \<and> HasSuffix (a @ ''.'' @ b @ ''.'' @ c) ''.0'')"
  using rc_matches [OF assms] Split_rc_version [OF assms]
  by (simp add: parseVersion_def)

text \<open>
  C4. For components \<open>a\<close>, \<open>b\<close>, \<open>c\<close> and \<open>n\<close> of one or more digits each: the version
  \<open>a.b.c\<close> is parsed into itself as release part, an empty rc part and
  \<open>isFirstMinorRelease\<close> false; the version \<open>a.b.c-rcn\<close> is split at the dash into the
  release part \<open>a.b.c\<close> and the rc part \<open>rcn\<close>, and \<open>isFirstMinorRelease\<close> is true exactly
  when the rc part is \<open>rc1\<close> and the release part ends in \<open>.0\<close>.
\<close>

theorem parseVersion_forms:
  assumes "digits a" and "digits b" and "digits c" and "digits n"
  shows "parseVersion (a @ ''.'' @ b @ ''.'' @ c) = Version (a @ ''.'' @ b @ ''.'' @ c) [] False
       \<and> parseVersion (a @ ''.'' @ b @ ''.'' @ c @ ''-rc'' @ n) =
           Version (a @ ''.'' @ b @ ''.'' @ c) (''rc'' @ n)
             (''rc'' @ n = ''rc1'' \<and> HasSuffix (a @ ''.'' @ b @ ''.'' @ c) ''.0'')"
  using parseVersion_final [OF assms(1-3)] parseVersion_rc [OF assms]
  by (rule conjI)

theorem parseVersion_forms_witness:
  "parseVersion ''5.3.0'' = Version ''5.3.0'' [] False
   \<and> parseVersion ''5.3.0-rc1'' = Version ''5.3.0'' ''rc1'' True
   \<and> parseVersion ''5.3.1-rc1'' = Version ''5.3.1'' ''rc1'' False
   \<and> parseVersion ''5.3.0-rc2'' = Version ''5.3.0'' ''rc2'' False"
  using parseVersion_forms [of "''5''" "''3''" "''0''" "''1''"]
        parseVersion_forms [of "''5''" "''3''" "''1''" "''1''"]
        parseVersion_forms [of "''5''" "''3''" "''0''" "''2''"]
  by (simp add: digits_def isDigit_def HasSuffix_def)

section \<open>The events of each operation\<close>

lemma appended_refl [simp]: "appended tr tr Q"
  by (simp add: appended_def)

lemma appended_snoc: "appended tr tr1 Q \<Longrightarrow> Q c \<Longrightarrow> appended tr (tr1 @ [c]) Q"
  by (auto simp: appended_def)



lemma appended_events [simp]: "appended tr (tr @ evs) Q = list_all Q evs"
  by (simp add: appended_def)




lemma RunJobParameters_events:
  "RunJobParameters e name ps tr = (r, tr1) \<Longrightarrow>
   appended tr tr1 (\<lambda>c. c = CreateJenkins \<or> c = GetJob name \<or> c = InvokeSimple name ps)"
  by (auto simp: RunJobParameters_def getJob_def getJenkins_def jenkins_Init_def jenkins_GetJob_def
      job_InvokeSimple_def split: option.splits sum.splits if_splits)

lemma paths_differ [simp]:
  "defaultValuePath \<noteq> upstreamProjectsPath" "upstreamProjectsPath \<noteq> defaultValuePath"
  by (simp_all add: defaultValuePath_def upstreamProjectsPath_def)



lemma updatedJobs_append [simp]: "updatedJobs (xs @ ys) = updatedJobs xs @ updatedJobs ys"
  by (induction xs) (simp_all split: call.splits)








lemma quiet_documents [simp]:
  "readFromString quietRemote s = Inr (Some quietRoot)"
  "writeToString quietRemote d = Inr (quietWrite d)"
  "quietRoot defaultValuePath = Some ''master''"
  "quietRoot upstreamProjectsPath = Some ''mattermost-enterprise''"
  "quietWrite (Some root) =
     case_option ''-'' id (root defaultValuePath) @ ''|''
       @ case_option ''-'' id (root upstreamProjectsPath)"
  by (simp_all add: quietRemote_def quietRoot_def quietWrite_def)



section \<open>Facts about the probe for a later release\<close>















text \<open>What the handler does with a version it has parsed, from the call of \<open>CutRelease\<close> on.\<close>

lemma cutReleaseCommandF_parsed:
  assumes "parseVersion v = Version releasePart rcPart fm"
  shows "cutReleaseCommandF e cfg (v # rest) backport dryrun tr =
           (let (answered, tr1) =
                  (if \<not> backport then futureReleaseCheck e releasePart tr else (False, tr))
            in if answered then Some (Return NilError, tr1, None)
               else
                 (case CutRelease_dryrun e cfg releasePart rcPart fm backport dryrun tr1 of
                    None \<Rightarrow> None
                  | Some (Panic, tr2, g) \<Rightarrow> Some (Panic, tr2, g)
                  | Some (Return (Some err), tr2, g) \<Rightarrow>
                      Some (Return NilError, WriteErrorResponse err tr2, g)
                  | Some (Return None, tr2, g) \<Rightarrow>
                      Some (Return NilError,
                            WriteEnrichedResponse ''Cut Release''
                              (''Release **'' @ v @ ''** is on the way.'')
                              ''#0060aa'' IN_CHANNEL tr2, g)))"
  using assms unfolding cutReleaseCommandF_def nth_Cons_0 by simp


lemma RunJobWaitForResult_quiet:
  "RunJobWaitForResult quietRemote name ps tr =
     Some ((''SUCCESS'', None),
           tr @ [CreateJenkins, GetJob name, InvokeSimple name ps, Poll (''/job/'' @ name @ ''/7''),
                 Sleep 5, Poll (''/job/'' @ name @ ''/7''), IsRunning (''/job/'' @ name @ ''/7''),
                 GetResult (''/job/'' @ name @ ''/7'')])"
  by (simp add: RunJobWaitForResult_quick [where n = 7] quietRemote_def buildBase_def Itoa_7)

lemma CutRelease_quiet:
  "2 \<le> length release \<Longrightarrow>
   CutRelease quietRemote demoConfig release rc fm bp tr =
     Some (Return None,
           tr @ [CreateJenkins, GetJob ''pre'', InvokeSimple ''pre'' None, Poll ''/job/pre/7'',
                 Sleep 5, Poll ''/job/pre/7'', IsRunning ''/job/pre/7'', GetResult ''/job/pre/7''],
           Some (CutRelease_go quietRemote demoConfig release (if rc = [] then [] else ''-'' @ rc)
                   (if fm then ''true'' else ''false'') bp
                   (''release-'' @ take (length release - 2) release)
                   (if rc = [] then release else release @ ''-'' @ rc)))"
  by (simp add: CutRelease_def RunReleasePrechecks_def RunJobWaitForResult_quiet Let_def
      STATUS_SUCCESS_def demoConfig_def)


lemma digits_examples [simp]:
  "digits ''0''" "digits ''1''" "digits ''2''" "digits ''3''" "digits ''5''"
  by (simp_all add: digits_def isDigit_def)





section \<open>Where the code leaves the specification\<close>

lemma checkSlashPermissions_cases:
  "checkSlashPermissions cfg command =
     (if \<not> hasEntry (AllowedTokens cfg) (Token command)
      then Some (NewError ''Token for slash command is incorrect'' NilError)
      else if hasEntry (AllowedUsers cfg) (UserId command)
              \<and> (Command command = ''cut'' \<longrightarrow> hasEntry (ReleaseUsers cfg) (UserId command))
      then None
      else Some (NewError ''You don't have permissions to use this command.'' NilError))"
  by (simp add: checkSlashPermissions_def)

text \<open>
  C2. The release-user check of \<open>checkSlashPermissions\<close> reads the \<open>Command\<close> field of the
  request, while the action that runs is named by the first word of its \<open>Text\<close> that is
  no flag. A user
  who is allowed but is no release user passes the check with a request whose text asks
  for the cut action; and the same user is refused when the \<open>Command\<close> field is \<open>cut\<close>,
  though the text asks for \<open>runjob\<close>.
\<close>

theorem release_check_reads_Command_field:
  "\<not> hasEntry (ReleaseUsers demoConfig) (UserId cutRequest)
   \<and> requestedAction cutRequest = Some CutCmd
   \<and> checkSlashPermissions demoConfig cutRequest = None
   \<and> requestedAction (cutRequest\<lparr>Command := ''cut'', Text := ''runjob build''\<rparr>) = Some RunJobCmd
   \<and> checkSlashPermissions demoConfig (cutRequest\<lparr>Command := ''cut'', Text := ''runjob build''\<rparr>) =
       Some (NewError ''You don't have permissions to use this command.'' NilError)"
  by (simp add: checkSlashPermissions_def requestedAction_def cutRequest_def demoConfig_def
      Fields_def TrimSpace_def isSpace_def subcommands_def utf8_width.simps inRange_def
      HasPrefix_def)

lemma cut_rejects_unmatched:
  assumes "\<not> MatchString rcRxp v" and "\<not> MatchString finalVersionRxp v"
  shows "cutReleaseCommandF e cfg (v # rest) backport dryrun tr =
           Some (Return NilError,
                 tr @ [WriteStandard
                         ''Bad version argument. Typo? If not the regex might be broken. If so be more careful!!''
                         EPHEMERAL],
                 None)"
  using assms
  by (simp add: cutReleaseCommandF_def parseVersion_def WriteErrorResponse_def NewError_def)

text \<open>
  C3. The version \<open>5x3x0\<close> has no dot, so it is of neither form of the grammar; the
  patterns accept it, because their unescaped \<open>.\<close> stands for any character. With the
  backport flag the handler does not refuse it: it runs the pre-checks job on Jenkins,
  answers that the release is on the way, and starts the goroutine for the release job.
\<close>

theorem cut_accepts_version_without_dots:
  "CHR ''.'' \<notin> set ''5x3x0''
   \<and> MatchString finalVersionRxp ''5x3x0''
   \<and> cutReleaseCommandF quietRemote demoConfig [''5x3x0''] True False [] =
       Some (Return NilError,
             [CreateJenkins, GetJob ''pre'', InvokeSimple ''pre'' None, Poll ''/job/pre/7'',
              Sleep 5, Poll ''/job/pre/7'', IsRunning ''/job/pre/7'', GetResult ''/job/pre/7'',
              WriteEnriched ''Cut Release'' ''Release **5x3x0** is on the way.'' ''#0060aa''
                ''in_channel''],
             Some (CutRelease_go quietRemote demoConfig ''5x3x0'' [] ''false'' True
                     ''release-5x3'' ''5x3x0''))"
proof -
  have m: "MatchString finalVersionRxp ''5x3x0''" "\<not> MatchString rcRxp ''5x3x0''"
    by (simp_all add: MatchString_def finalVersionRxp_def rcRxp_def isDigit_def
        utf8_width.simps inRange_def)
  then have pv: "parseVersion ''5x3x0'' = Version ''5x3x0'' [] False"
    by (simp add: parseVersion_def)
  show ?thesis
    using m(1) unfolding cutReleaseCommandF_parsed [OF pv] CutRelease_dryrun_def
    by (simp add: CutRelease_quiet WriteEnrichedResponse_def IN_CHANNEL_def)
qed

section \<open>The last stage of a cut\<close>




text \<open>Every operation on a job starts with the connection to Jenkins.\<close>

lemma getJob_first:
  "getJob e name tr = (r, tr1) \<Longrightarrow> \<exists>evs. tr1 = tr @ CreateJenkins # evs"
  by (auto simp: getJob_def getJenkins_def jenkins_Init_def jenkins_GetJob_def
      split: option.splits sum.splits)










text \<open>
  C10, as amended. Let the lookup of the job succeed. When the invocation then fails in
  \<open>RunJobWaitForResult\<close> or \<open>RunJobParameters\<close>, or the update fails in \<open>SaveJobConfig\<close>,
  the error returned wraps the nil \<open>*AppError\<close> of the lookup and not the failure: its
  \<open>Parent\<close> is an interface that holds a nil pointer, which is not the nil interface, and
  its message is the description followed by \<open>" |:| No Error (nil)"\<close>. Neither the error
  nor its message depends on the cause of the failure.
\<close>

theorem invoke_failure_wraps_lookup_error:
  assumes "getJob e name tr = (Inr job, tr1)"
  shows "(invokeSimple_r e (ncalls is_InvokeSimple tr1) = Some cause \<longrightarrow>
            RunJobWaitForResult e name ps tr =
              Some (([], Some (AppError ''Unable to envoke job.'' (AppErrorPtr None))),
                    tr1 @ [InvokeSimple (JobName job) ps])
          \<and> RunJobParameters e name ps tr =
              (Some (AppError ''Unable to envoke job.'' (AppErrorPtr None)),
               tr1 @ [InvokeSimple (JobName job) ps]))
       \<and> (updateConfig_r e (ncalls is_UpdateConfig tr1) = Some cause \<longrightarrow>
            SaveJobConfig e name config tr =
              (Some (AppError ''Unable to update job config'' (AppErrorPtr None)),
               tr1 @ [UpdateConfig (JobName job) config]))
       \<and> Error (Some (AppError ''Unable to envoke job.'' (AppErrorPtr None))) =
            ''Unable to envoke job. |:| No Error (nil)''
       \<and> Error (Some (AppError ''Unable to update job config'' (AppErrorPtr None))) =
            ''Unable to update job config |:| No Error (nil)''"
  using assms
  by (simp add: RunJobWaitForResult_def RunJobParameters_def SaveJobConfig_def
      job_InvokeSimple_def job_UpdateConfig_def NewError_def)

theorem invoke_failure_wraps_lookup_error_witness:
  "RunJobWaitForResult (quietRemote\<lparr>invokeSimple_r := (\<lambda>k. Some ''connection refused'')\<rparr>)
     ''job'' None [] =
     Some (([], Some (AppError ''Unable to envoke job.'' (AppErrorPtr None))),
           [CreateJenkins, GetJob ''job'', InvokeSimple ''job'' None])
   \<and> RunJobParameters (quietRemote\<lparr>invokeSimple_r := (\<lambda>k. Some ''connection refused'')\<rparr>)
       ''job'' None [] =
     (Some (AppError ''Unable to envoke job.'' (AppErrorPtr None)),
      [CreateJenkins, GetJob ''job'', InvokeSimple ''job'' None])
   \<and> SaveJobConfig (quietRemote\<lparr>updateConfig_r := (\<lambda>k. Some ''forbidden'')\<rparr>)
       ''job'' ''<project/>'' [] =
     (Some (AppError ''Unable to update job config'' (AppErrorPtr None)),
      [CreateJenkins, GetJob ''job'', UpdateConfig ''job'' ''<project/>''])"
proof -
  let ?e1 = "quietRemote\<lparr>invokeSimple_r := (\<lambda>k. Some ''connection refused'')\<rparr>"
  let ?e2 = "quietRemote\<lparr>updateConfig_r := (\<lambda>k. Some ''forbidden'')\<rparr>"
  let ?job = "\<lparr>JobName = ''job'', NextBuildNumber = 7\<rparr>"
  have g1: "getJob ?e1 ''job'' [] = (Inr ?job, [] @ [CreateJenkins, GetJob ''job''])"
    by (rule getJob_ok) (simp_all add: quietRemote_def)
  have g2: "getJob ?e2 ''job'' [] = (Inr ?job, [] @ [CreateJenkins, GetJob ''job''])"
    by (rule getJob_ok) (simp_all add: quietRemote_def)
  show ?thesis
    using invoke_failure_wraps_lookup_error [OF g1, where cause = "''connection refused''"
            and ps = None, THEN conjunct1]
          invoke_failure_wraps_lookup_error [OF g2, where cause = "''forbidden''"
            and config = "''<project/>''", THEN conjunct2, THEN conjunct1]
    by (simp add: quietRemote_def)
qed

text \<open>
  C10 as stated fails where it says that the \<open>Parent\<close> of the returned error is nil: when
  the invocation is refused, the \<open>Parent\<close> is not the nil interface, so the test
  \<open>err.Parent != nil\<close> of \<open>Error\<close> holds and the message is not the bare description.
\<close>

theorem invoke_failure_parent_counterexample:
  "fst (RunJobParameters (quietRemote\<lparr>invokeSimple_r := (\<lambda>k. Some ''connection refused'')\<rparr>)
          ''job'' None []) =
     Some (AppError ''Unable to envoke job.'' (AppErrorPtr None))
   \<and> Parent (AppError ''Unable to envoke job.'' (AppErrorPtr None)) \<noteq> NilError
   \<and> Error (Some (AppError ''Unable to envoke job.'' (AppErrorPtr None))) \<noteq>
       ''Unable to envoke job.''"
  by (simp add: RunJobParameters_def getJob_def getJenkins_def jenkins_Init_def jenkins_GetJob_def
      job_InvokeSimple_def NewError_def quietRemote_def)

end
